theory Spec2Isabelle
  imports Complex_Main "HOL-Library.Sublist"
begin

chapter \<open>The embedding\<close>

text \<open>
  A shallow embedding of the Terraform benchmark scripts: the token estimator and the
  token benchmark (\<^verbatim>\<open>token_benchmarks/token_benchmark_terraform.py\<close>), the error
  detection test (\<^verbatim>\<open>ab_tests/error_detection_test.py\<close>) and the claim analysis of the
  A/B test (\<^verbatim>\<open>ab_tests/comprehensive_ab_test.py\<close>).

  Conventions of the model.
  \<^item> A Python \<^verbatim>\<open>str\<close> is a \<^typ>\<open>string\<close>; each \<^typ>\<open>char\<close> stands for one code point in
    the range 0..255, so \<^const>\<open>length\<close> is Python's \<^verbatim>\<open>len\<close> on such strings.
  \<^item> A Python \<^verbatim>\<open>float\<close> is an exact rational (\<^typ>\<open>rat\<close>): rounding of the binary
    representation is not modelled.
  \<^item> A raised exception is a value: the exception is represented by its message
    \<^verbatim>\<open>str(e)\<close>, or by a constructor of \<open>py_error\<close> where the kind matters.
  \<^item> Console output (\<^verbatim>\<open>print\<close>) and the wall-clock field \<^verbatim>\<open>execution_time\<close> of a
    token usage record are left out: no other result of the functions below depends on
    them.
\<close>

section \<open>Python strings\<close>

text \<open>
  \<^verbatim>\<open>str.isspace\<close> and the regular expression class \<^verbatim>\<open>\s\<close> (the whitespace class of a \<^verbatim>\<open>str\<close> pattern) agree: both
  hold of the code points 9..13, 28..32, 133 and 160 among 0..255.
\<close>

definition is_space :: "char \<Rightarrow> bool" where
  "is_space c = (of_char c \<in> {9, 10, 11, 12, 13, 28, 29, 30, 31, 32, 133, 160 :: nat})"

text \<open>\<^verbatim>\<open>text.strip()\<close>: leading, then trailing whitespace is removed.\<close>

definition lstrip :: "string \<Rightarrow> string" where
  "lstrip s = dropWhile is_space s"

definition rstrip :: "string \<Rightarrow> string" where
  "rstrip s = rev (dropWhile is_space (rev s))"

definition strip :: "string \<Rightarrow> string" where
  "strip s = rstrip (lstrip s)"

text \<open>
  \<^verbatim>\<open>re.sub(r'\s+', ' ', s)\<close>: scanning from the left, every maximal run of whitespace is
  replaced by one space.
\<close>

function re_sub_ws :: "string \<Rightarrow> string" where
  "re_sub_ws [] = []"
| "re_sub_ws (c # cs) =
     (if is_space c then CHR '' '' # re_sub_ws (dropWhile is_space cs)
      else c # re_sub_ws cs)"
  by pat_completeness auto
termination
  by (relation "measure length") (auto simp: length_dropWhile_le less_Suc_eq_le)

text \<open>
  The bracketed character class that \<^verbatim>\<open>re.findall\<close> counts in the cleaned text: thirty
  punctuation and operator characters. The single quote (code 39) and the backslash
  (code 92), which the pattern escapes, are written by their codes.
\<close>

definition special_chars_class :: "char set" where
  \<open>special_chars_class =
     set ''{}()[].,;:"`=+-*/<>!@#$%^&|~'' \<union> {CHR 0x27, CHR 0x5C}\<close>

text \<open>\<^verbatim>\<open>int(x)\<close> on a float truncates towards zero.\<close>

definition py_int :: "rat \<Rightarrow> int" where
  "py_int x = (if 0 \<le> x then \<lfloor>x\<rfloor> else \<lceil>x\<rceil>)"

text \<open>
  \<^verbatim>\<open>str(n)\<close> for a non-negative integer, \<^verbatim>\<open>repr(s)\<close> for a string and \<^verbatim>\<open>str(xs)\<close> for a
  list of strings, as the f-strings of the benchmark use them.
\<close>

definition digit_char :: "nat \<Rightarrow> char" where
  "digit_char d = ''0123456789'' ! d"

fun str_nat :: "nat \<Rightarrow> string" where
  "str_nat n = (if n < 10 then [digit_char n] else str_nat (n div 10) @ [digit_char (n mod 10)])"

definition hex_digit :: "nat \<Rightarrow> char" where
  "hex_digit d = ''0123456789abcdef'' ! d"

definition is_printable :: "char \<Rightarrow> bool" where
  "is_printable c =
     (let n = (of_char c :: nat)
      in (32 \<le> n \<and> n < 127) \<or> (161 \<le> n \<and> n \<noteq> 173))"

definition repr_char :: "char \<Rightarrow> char \<Rightarrow> string" where
  "repr_char quote c =
     (if c = quote \<or> c = CHR 0x5C then [CHR 0x5C, c]
      else if c = CHR 0x09 then [CHR 0x5C, CHR ''t'']
      else if c = CHR 0x0A then [CHR 0x5C, CHR ''n'']
      else if c = CHR 0x0D then [CHR 0x5C, CHR ''r'']
      else if is_printable c then [c]
      else [CHR 0x5C, CHR ''x'', hex_digit (of_char c div 16), hex_digit (of_char c mod 16)])"

definition py_repr :: "string \<Rightarrow> string" where
  "py_repr s =
     (let quote = (if CHR 0x27 \<in> set s \<and> CHR 0x22 \<notin> set s then CHR 0x22 else CHR 0x27)
      in [quote] @ concat (map (repr_char quote) s) @ [quote])"

fun join :: "string \<Rightarrow> string list \<Rightarrow> string" where
  "join sep [] = []"
| "join sep [x] = x"
| "join sep (x # y # ys) = x @ sep @ join sep (y # ys)"

definition str_list :: "string list \<Rightarrow> string" where
  "str_list xs = ''['' @ join '', '' (map py_repr xs) @ '']''"

text \<open>\<^verbatim>\<open>pattern in content\<close> on strings: some suffix of the content starts with the pattern.\<close>

fun str_contains :: "string \<Rightarrow> string \<Rightarrow> bool" where
  "str_contains p [] = (p = [])"
| "str_contains p (c # cs) = (prefix p (c # cs) \<or> str_contains p cs)"

text \<open>\<^verbatim>\<open>filename.endswith('.tf')\<close>.\<close>

definition endswith :: "string \<Rightarrow> string \<Rightarrow> bool" where
  "endswith s x = suffix x s"

section \<open>The token estimator\<close>

text \<open>
  \<^verbatim>\<open>TokenCounter.estimate_tokens\<close>. The argument is optional: \<^verbatim>\<open>if not text\<close> holds of
  \<^verbatim>\<open>None\<close> and of the empty string.
\<close>

definition estimate_tokens :: "string option \<Rightarrow> int" where
  "estimate_tokens text =
     (case text of
        None \<Rightarrow> 0
      | Some t \<Rightarrow>
          if t = [] then 0
          else
            let cleaned = re_sub_ws (strip t);
                base_tokens = of_nat (length cleaned) / 4;
                special_chars = length (filter (\<lambda>c. c \<in> special_chars_class) cleaned);
                special_tokens = of_nat special_chars * (3 / 10)
            in py_int (base_tokens + special_tokens))"

text \<open>\<^verbatim>\<open>TokenCounter.count_operation_tokens\<close>.\<close>

definition count_operation_tokens :: "string \<Rightarrow> string \<Rightarrow> int \<times> int \<times> int" where
  "count_operation_tokens input_content output_content =
     (let input_tokens = estimate_tokens (Some input_content);
          output_tokens = estimate_tokens (Some output_content);
          total_tokens = input_tokens + output_tokens
      in (input_tokens, output_tokens, total_tokens))"

text \<open>
  The estimator as the specification words it, for comparison with the code: whitespace
  runs are normalised to single spaces (nothing is said of stripping), the base is a
  quarter of the normalised length, each character of the punctuation class adds 0.3,
  the sum is truncated; absent text gives 0.
\<close>

fun spec_normalize :: "string \<Rightarrow> string" where
  "spec_normalize [] = []"
| "spec_normalize [c] = (if is_space c then [CHR '' ''] else [c])"
| "spec_normalize (c # d # cs) =
     (if is_space c
      then (if is_space d then spec_normalize (d # cs) else CHR '' '' # spec_normalize (d # cs))
      else c # spec_normalize (d # cs))"

definition spec_estimate :: "string option \<Rightarrow> int" where
  "spec_estimate text =
     (case text of
        None \<Rightarrow> 0
      | Some t \<Rightarrow>
          py_int (of_nat (length (spec_normalize t)) / 4
                  + (3 / 10) * of_nat (length (filter (\<lambda>c. c \<in> special_chars_class) (spec_normalize t)))))"


section \<open>Fixture texts\<close>

text \<open>
  The fixture files are string literals of the source. Each is written here line by line;
  every line of the literal, the empty first one included, ends with a newline.
\<close>

definition lines_text :: "string list \<Rightarrow> string" where
  "lines_text ls = concat (map (\<lambda>l. l @ [CHR 0x0A]) ls)"

subsection \<open>The error scenarios\<close>

text \<open>The literal \<^verbatim>\<open>syntax_errors_tf\<close> of \<^verbatim>\<open>create_error_scenarios\<close>.\<close>

definition syntax_errors_tf :: string where
  \<open>syntax_errors_tf = lines_text
    ['''',
     ''# Syntax error: missing quotes around resource type'',
     ''resource aws_vpc "broken" {'',
     ''  cidr_block = "10.0.0.0/16"'',
     ''}'',
     '''',
     ''# Type error: number instead of string'',
     ''resource "aws_instance" "type_error" {'',
     ''  ami           = "ami-12345"'',
     ''  instance_type = 123'',
     ''  subnet_id     = aws_subnet.public.id'',
     ''}'',
     '''',
     ''# Missing required argument'',
     ''resource "aws_vpc" "incomplete" {'',
     ''  # Missing cidr_block'',
     ''  enable_dns_hostnames = true'',
     ''}'']\<close>

text \<open>The literal \<^verbatim>\<open>logic_errors_tf\<close> of \<^verbatim>\<open>create_error_scenarios\<close>.\<close>

definition logic_errors_tf :: string where
  \<open>logic_errors_tf = lines_text
    ['''',
     ''# Circular dependency'',
     ''resource "aws_security_group" "sg1" {'',
     ''  name   = "sg1"'',
     ''  vpc_id = aws_vpc.main.id'',
     ''  '',
     ''  ingress {'',
     ''    from_port                = 80'',
     ''    to_port                  = 80'',
     ''    protocol                 = "tcp"'',
     ''    source_security_group_id = aws_security_group.sg2.id'',
     ''  }'',
     ''}'',
     '''',
     ''resource "aws_security_group" "sg2" {'',
     ''  name   = "sg2"'',
     ''  vpc_id = aws_vpc.main.id'',
     ''  '',
     ''  ingress {'',
     ''    from_port                = 443'',
     ''    to_port                  = 443'',
     ''    protocol                 = "tcp"'',
     ''    source_security_group_id = aws_security_group.sg1.id'',
     ''  }'',
     ''}'']\<close>

text \<open>The literal \<^verbatim>\<open>reference_errors_tf\<close> of \<^verbatim>\<open>create_error_scenarios\<close>.\<close>

definition reference_errors_tf :: string where
  \<open>reference_errors_tf = lines_text
    ['''',
     ''# Reference to non-existent resource'',
     ''resource "aws_instance" "web" {'',
     ''  ami           = "ami-12345"'',
     ''  instance_type = "t3.micro"'',
     ''  subnet_id     = aws_subnet.nonexistent.id  # Error: doesn't exist'',
     ''}'',
     '''',
     ''# Invalid variable reference'',
     ''locals {'',
     ''  invalid_ref = var.undefined_variable  # Error: undefined variable'',
     ''}'',
     '''',
     ''# Wrong resource type reference'',
     ''output "instance_ip" {'',
     ''  value = aws_instance.database.public_ip  # Error: should be aws_db_instance'',
     ''}'']\<close>

text \<open>The literal \<^verbatim>\<open>variables_errors_tf\<close> of \<^verbatim>\<open>create_error_scenarios\<close>.\<close>

definition variables_errors_tf :: string where
  \<open>variables_errors_tf = lines_text
    ['''',
     ''variable "instance_count" {'',
     ''  type    = number'',
     ''  default = "not_a_number"  # Error: type mismatch'',
     ''}'',
     '''',
     ''variable "invalid_validation" {'',
     ''  type = string'',
     ''  '',
     ''  validation {'',
     ''    condition     = contains(["dev", "prod"], var.nonexistent)  # Error: undefined var'',
     ''    error_message = "Invalid environment"'',
     ''  }'',
     ''}'']\<close>

subsection \<open>The benchmark project\<close>

text \<open>The literal \<^verbatim>\<open>main_tf\<close> of \<^verbatim>\<open>create_realistic_terraform_project\<close>.\<close>

definition main_tf :: string where
  \<open>main_tf = lines_text
    ['''',
     ''terraform {'',
     ''  required_version = ">= 1.0"'',
     ''  required_providers {'',
     ''    aws = {'',
     ''      source  = "hashicorp/aws"'',
     ''      version = "~> 5.0"'',
     ''    }'',
     ''    random = {'',
     ''      source  = "hashicorp/random"'',
     ''      version = "~> 3.1"'',
     ''    }'',
     ''  }'',
     ''}'',
     '''',
     ''provider "aws" {'',
     ''  region = var.aws_region'',
     ''  '',
     ''  default_tags {'',
     ''    tags = {'',
     ''      Project     = var.project_name'',
     ''      Environment = var.environment'',
     ''      ManagedBy   = "terraform"'',
     ''      CreatedAt   = timestamp()'',
     ''    }'',
     ''  }'',
     ''}'',
     '''',
     ''# Random password for RDS'',
     ''resource "random_password" "db_password" {'',
     ''  length  = 16'',
     ''  special = true'',
     ''}'',
     '''',
     ''# VPC and Networking'',
     ''resource "aws_vpc" "main" {'',
     ''  cidr_block           = var.vpc_cidr'',
     ''  enable_dns_hostnames = true'',
     ''  enable_dns_support   = true'',
     ''  '',
     ''  tags = {'',
     ''    Name = "${var.project_name}-vpc"'',
     ''  }'',
     ''}'',
     '''',
     ''resource "aws_internet_gateway" "main" {'',
     ''  vpc_id = aws_vpc.main.id'',
     ''  '',
     ''  tags = {'',
     ''    Name = "${var.project_name}-igw"'',
     ''  }'',
     ''}'',
     '''',
     ''resource "aws_subnet" "public" {'',
     ''  count = length(var.availability_zones)'',
     ''  '',
     ''  vpc_id                  = aws_vpc.main.id'',
     ''  cidr_block              = cidrsubnet(var.vpc_cidr, 8, count.index)'',
     ''  availability_zone       = var.availability_zones[count.index]'',
     ''  map_public_ip_on_launch = true'',
     ''  '',
     ''  tags = {'',
     ''    Name = "${var.project_name}-public-${count.index + 1}"'',
     ''    Type = "public"'',
     ''  }'',
     ''}'',
     '''',
     ''resource "aws_subnet" "private" {'',
     ''  count = length(var.availability_zones)'',
     ''  '',
     ''  vpc_id            = aws_vpc.main.id'',
     ''  cidr_block        = cidrsubnet(var.vpc_cidr, 8, count.index + 10)'',
     ''  availability_zone = var.availability_zones[count.index]'',
     ''  '',
     ''  tags = {'',
     ''    Name = "${var.project_name}-private-${count.index + 1}"'',
     ''    Type = "private"'',
     ''  }'',
     ''}'',
     '''',
     ''resource "aws_route_table" "public" {'',
     ''  vpc_id = aws_vpc.main.id'',
     ''  '',
     ''  route {'',
     ''    cidr_block = "0.0.0.0/0"'',
     ''    gateway_id = aws_internet_gateway.main.id'',
     ''  }'',
     ''  '',
     ''  tags = {'',
     ''    Name = "${var.project_name}-public-rt"'',
     ''  }'',
     ''}'',
     '''',
     ''resource "aws_route_table_association" "public" {'',
     ''  count = length(aws_subnet.public)'',
     ''  '',
     ''  subnet_id      = aws_subnet.public[count.index].id'',
     ''  route_table_id = aws_route_table.public.id'',
     ''}'',
     '''',
     ''# NAT Gateway for private subnets'',
     ''resource "aws_eip" "nat" {'',
     ''  domain = "vpc"'',
     ''  '',
     ''  tags = {'',
     ''    Name = "${var.project_name}-nat-eip"'',
     ''  }'',
     ''}'',
     '''',
     ''resource "aws_nat_gateway" "main" {'',
     ''  allocation_id = aws_eip.nat.id'',
     ''  subnet_id     = aws_subnet.public[0].id'',
     ''  '',
     ''  tags = {'',
     ''    Name = "${var.project_name}-nat"'',
     ''  }'',
     ''  '',
     ''  depends_on = [aws_internet_gateway.main]'',
     ''}'',
     '''',
     ''resource "aws_route_table" "private" {'',
     ''  vpc_id = aws_vpc.main.id'',
     ''  '',
     ''  route {'',
     ''    cidr_block     = "0.0.0.0/0"'',
     ''    nat_gateway_id = aws_nat_gateway.main.id'',
     ''  }'',
     ''  '',
     ''  tags = {'',
     ''    Name = "${var.project_name}-private-rt"'',
     ''  }'',
     ''}'',
     '''',
     ''resource "aws_route_table_association" "private" {'',
     ''  count = length(aws_subnet.private)'',
     ''  '',
     ''  subnet_id      = aws_subnet.private[count.index].id'',
     ''  route_table_id = aws_route_table.private.id'',
     ''}'',
     '''',
     ''# Security Groups'',
     ''resource "aws_security_group" "web" {'',
     ''  name_prefix = "${var.project_name}-web"'',
     ''  vpc_id      = aws_vpc.main.id'',
     ''  description = "Security group for web servers"'',
     ''  '',
     ''  ingress {'',
     ''    description = "HTTP"'',
     ''    from_port   = 80'',
     ''    to_port     = 80'',
     ''    protocol    = "tcp"'',
     ''    cidr_blocks = ["0.0.0.0/0"]'',
     ''  }'',
     ''  '',
     ''  ingress {'',
     ''    description = "HTTPS"'',
     ''    from_port   = 443'',
     ''    to_port     = 443'',
     ''    protocol    = "tcp"'',
     ''    cidr_blocks = ["0.0.0.0/0"]'',
     ''  }'',
     ''  '',
     ''  ingress {'',
     ''    description     = "SSH"'',
     ''    from_port       = 22'',
     ''    to_port         = 22'',
     ''    protocol        = "tcp"'',
     ''    security_groups = [aws_security_group.bastion.id]'',
     ''  }'',
     ''  '',
     ''  egress {'',
     ''    from_port   = 0'',
     ''    to_port     = 0'',
     ''    protocol    = "-1"'',
     ''    cidr_blocks = ["0.0.0.0/0"]'',
     ''  }'',
     ''  '',
     ''  tags = {'',
     ''    Name = "${var.project_name}-web-sg"'',
     ''  }'',
     ''}'',
     '''',
     ''resource "aws_security_group" "database" {'',
     ''  name_prefix = "${var.project_name}-db"'',
     ''  vpc_id      = aws_vpc.main.id'',
     ''  description = "Security group for database"'',
     ''  '',
     ''  ingress {'',
     ''    description     = "MySQL/Aurora"'',
     ''    from_port       = 3306'',
     ''    to_port         = 3306'',
     ''    protocol        = "tcp"'',
     ''    security_groups = [aws_security_group.web.id]'',
     ''  }'',
     ''  '',
     ''  tags = {'',
     ''    Name = "${var.project_name}-db-sg"'',
     ''  }'',
     ''}'',
     '''',
     ''resource "aws_security_group" "bastion" {'',
     ''  name_prefix = "${var.project_name}-bastion"'',
     ''  vpc_id      = aws_vpc.main.id'',
     ''  description = "Security group for bastion host"'',
     ''  '',
     ''  ingress {'',
     ''    description = "SSH"'',
     ''    from_port   = 22'',
     ''    to_port     = 22'',
     ''    protocol    = "tcp"'',
     ''    cidr_blocks = var.allowed_ssh_cidrs'',
     ''  }'',
     ''  '',
     ''  egress {'',
     ''    from_port   = 0'',
     ''    to_port     = 0'',
     ''    protocol    = "-1"'',
     ''    cidr_blocks = ["0.0.0.0/0"]'',
     ''  }'',
     ''  '',
     ''  tags = {'',
     ''    Name = "${var.project_name}-bastion-sg"'',
     ''  }'',
     ''}'',
     '''',
     ''# Load Balancer'',
     ''resource "aws_lb" "main" {'',
     ''  name               = "${var.project_name}-alb"'',
     ''  internal           = false'',
     ''  load_balancer_type = "application"'',
     ''  security_groups    = [aws_security_group.web.id]'',
     ''  subnets            = aws_subnet.public[*].id'',
     ''  '',
     ''  enable_deletion_protection = false'',
     ''  '',
     ''  tags = {'',
     ''    Name = "${var.project_name}-alb"'',
     ''  }'',
     ''}'',
     '''',
     ''resource "aws_lb_target_group" "web" {'',
     ''  name     = "${var.project_name}-web-tg"'',
     ''  port     = 80'',
     ''  protocol = "HTTP"'',
     ''  vpc_id   = aws_vpc.main.id'',
     ''  '',
     ''  health_check {'',
     ''    enabled             = true'',
     ''    healthy_threshold   = 2'',
     ''    interval            = 30'',
     ''    matcher             = "200"'',
     ''    path                = "/"'',
     ''    port                = "traffic-port"'',
     ''    protocol            = "HTTP"'',
     ''    timeout             = 5'',
     ''    unhealthy_threshold = 2'',
     ''  }'',
     ''  '',
     ''  tags = {'',
     ''    Name = "${var.project_name}-web-tg"'',
     ''  }'',
     ''}'',
     '''',
     ''resource "aws_lb_listener" "web" {'',
     ''  load_balancer_arn = aws_lb.main.arn'',
     ''  port              = "80"'',
     ''  protocol          = "HTTP"'',
     ''  '',
     ''  default_action {'',
     ''    type             = "forward"'',
     ''    target_group_arn = aws_lb_target_group.web.arn'',
     ''  }'',
     ''}'',
     '''',
     ''# Launch Template and Auto Scaling Group'',
     ''resource "aws_launch_template" "web" {'',
     ''  name_prefix   = "${var.project_name}-web"'',
     ''  image_id      = data.aws_ami.amazon_linux.id'',
     ''  instance_type = var.instance_type'',
     ''  '',
     ''  vpc_security_group_ids = [aws_security_group.web.id]'',
     ''  '',
     ''  user_data = base64encode(templatefile("${path.module}/user_data.sh", {'',
     ''    project_name = var.project_name'',
     ''  }))'',
     ''  '',
     ''  tag_specifications {'',
     ''    resource_type = "instance"'',
     ''    tags = {'',
     ''      Name = "${var.project_name}-web-instance"'',
     ''    }'',
     ''  }'',
     ''}'',
     '''',
     ''resource "aws_autoscaling_group" "web" {'',
     ''  name                = "${var.project_name}-web-asg"'',
     ''  vpc_zone_identifier = aws_subnet.private[*].id'',
     ''  target_group_arns   = [aws_lb_target_group.web.arn]'',
     ''  health_check_type   = "ELB"'',
     ''  '',
     ''  min_size         = var.min_instances'',
     ''  max_size         = var.max_instances'',
     ''  desired_capacity = var.desired_instances'',
     ''  '',
     ''  launch_template {'',
     ''    id      = aws_launch_template.web.id'',
     ''    version = "$Latest"'',
     ''  }'',
     ''  '',
     ''  tag {'',
     ''    key                 = "Name"'',
     ''    value               = "${var.project_name}-web-asg"'',
     ''    propagate_at_launch = false'',
     ''  }'',
     ''}'',
     '''',
     ''# RDS Database'',
     ''resource "aws_db_subnet_group" "main" {'',
     ''  name       = "${var.project_name}-db-subnet-group"'',
     ''  subnet_ids = aws_subnet.private[*].id'',
     ''  '',
     ''  tags = {'',
     ''    Name = "${var.project_name}-db-subnet-group"'',
     ''  }'',
     ''}'',
     '''',
     ''resource "aws_db_instance" "main" {'',
     ''  identifier = "${var.project_name}-database"'',
     ''  '',
     ''  allocated_storage     = 20'',
     ''  max_allocated_storage = 100'',
     ''  storage_type          = "gp2"'',
     ''  storage_encrypted     = true'',
     ''  '',
     ''  engine         = "mysql"'',
     ''  engine_version = "8.0"'',
     ''  instance_class = var.db_instance_class'',
     ''  '',
     ''  db_name  = var.database_name'',
     ''  username = var.database_username'',
     ''  password = random_password.db_password.result'',
     ''  '',
     ''  vpc_security_group_ids = [aws_security_group.database.id]'',
     ''  db_subnet_group_name   = aws_db_subnet_group.main.name'',
     ''  '',
     ''  backup_retention_period = 7'',
     ''  backup_window          = "03:00-04:00"'',
     ''  maintenance_window     = "sun:04:00-sun:05:00"'',
     ''  '',
     ''  skip_final_snapshot = true'',
     ''  deletion_protection = false'',
     ''  '',
     ''  tags = {'',
     ''    Name = "${var.project_name}-database"'',
     ''  }'',
     ''}'',
     '''',
     ''# Bastion Host'',
     ''resource "aws_instance" "bastion" {'',
     ''  ami           = data.aws_ami.amazon_linux.id'',
     ''  instance_type = "t3.micro"'',
     ''  subnet_id     = aws_subnet.public[0].id'',
     ''  '',
     ''  vpc_security_group_ids = [aws_security_group.bastion.id]'',
     ''  '',
     ''  tags = {'',
     ''    Name = "${var.project_name}-bastion"'',
     ''  }'',
     ''}'',
     '''',
     ''# Data sources'',
     ''data "aws_ami" "amazon_linux" {'',
     ''  most_recent = true'',
     ''  owners      = ["amazon"]'',
     ''  '',
     ''  filter {'',
     ''    name   = "name"'',
     ''    values = ["amzn2-ami-hvm-*-x86_64-gp2"]'',
     ''  }'',
     ''}'',
     '''',
     ''data "aws_availability_zones" "available" {'',
     ''  state = "available"'',
     ''}'']\<close>

text \<open>The literal \<^verbatim>\<open>variables_tf\<close> of \<^verbatim>\<open>create_realistic_terraform_project\<close>.\<close>

definition variables_tf :: string where
  \<open>variables_tf = lines_text
    ['''',
     ''variable "aws_region" {'',
     ''  description = "AWS region for resources"'',
     ''  type        = string'',
     ''  default     = "us-west-2"'',
     ''}'',
     '''',
     ''variable "project_name" {'',
     ''  description = "Name of the project"'',
     ''  type        = string'',
     ''  default     = "terraform-benchmark"'',
     ''  '',
     ''  validation {'',
     ''    condition     = length(var.project_name) > 0 && length(var.project_name) <= 20'',
     ''    error_message = "Project name must be between 1 and 20 characters."'',
     ''  }'',
     ''}'',
     '''',
     ''variable "environment" {'',
     ''  description = "Environment name (dev, staging, prod)"'',
     ''  type        = string'',
     ''  default     = "dev"'',
     ''  '',
     ''  validation {'',
     ''    condition     = contains(["dev", "staging", "prod"], var.environment)'',
     ''    error_message = "Environment must be one of: dev, staging, prod."'',
     ''  }'',
     ''}'',
     '''',
     ''variable "vpc_cidr" {'',
     ''  description = "CIDR block for VPC"'',
     ''  type        = string'',
     ''  default     = "10.0.0.0/16"'',
     ''  '',
     ''  validation {'',
     ''    condition     = can(cidrhost(var.vpc_cidr, 0))'',
     ''    error_message = "VPC CIDR must be a valid IPv4 CIDR block."'',
     ''  }'',
     ''}'',
     '''',
     ''variable "availability_zones" {'',
     ''  description = "List of availability zones"'',
     ''  type        = list(string)'',
     ''  default     = ["us-west-2a", "us-west-2b", "us-west-2c"]'',
     ''}'',
     '''',
     ''variable "instance_type" {'',
     ''  description = "EC2 instance type for web servers"'',
     ''  type        = string'',
     ''  default     = "t3.medium"'',
     ''  '',
     ''  validation {'',
     ''    condition = contains(['',
     ''      "t3.micro", "t3.small", "t3.medium", "t3.large",'',
     ''      "m5.large", "m5.xlarge", "c5.large", "c5.xlarge"'',
     ''    ], var.instance_type)'',
     ''    error_message = "Instance type must be a valid EC2 instance type."'',
     ''  }'',
     ''}'',
     '''',
     ''variable "min_instances" {'',
     ''  description = "Minimum number of instances in ASG"'',
     ''  type        = number'',
     ''  default     = 2'',
     ''  '',
     ''  validation {'',
     ''    condition     = var.min_instances >= 1 && var.min_instances <= 10'',
     ''    error_message = "Minimum instances must be between 1 and 10."'',
     ''  }'',
     ''}'',
     '''',
     ''variable "max_instances" {'',
     ''  description = "Maximum number of instances in ASG"'',
     ''  type        = number'',
     ''  default     = 6'',
     ''  '',
     ''  validation {'',
     ''    condition     = var.max_instances >= 1 && var.max_instances <= 20'',
     ''    error_message = "Maximum instances must be between 1 and 20."'',
     ''  }'',
     ''}'',
     '''',
     ''variable "desired_instances" {'',
     ''  description = "Desired number of instances in ASG"'',
     ''  type        = number'',
     ''  default     = 3'',
     ''  '',
     ''  validation {'',
     ''    condition     = var.desired_instances >= 1 && var.desired_instances <= 15'',
     ''    error_message = "Desired instances must be between 1 and 15."'',
     ''  }'',
     ''}'',
     '''',
     ''variable "db_instance_class" {'',
     ''  description = "RDS instance class"'',
     ''  type        = string'',
     ''  default     = "db.t3.micro"'',
     ''  '',
     ''  validation {'',
     ''    condition = contains(['',
     ''      "db.t3.micro", "db.t3.small", "db.t3.medium",'',
     ''      "db.m5.large", "db.m5.xlarge"'',
     ''    ], var.db_instance_class)'',
     ''    error_message = "Database instance class must be a valid RDS instance type."'',
     ''  }'',
     ''}'',
     '''',
     ''variable "database_name" {'',
     ''  description = "Name of the database"'',
     ''  type        = string'',
     ''  default     = "appdb"'',
     ''  '',
     ''  validation {'',
     ''    condition     = can(regex("^[a-zA-Z][a-zA-Z0-9]*$", var.database_name))'',
     ''    error_message = "Database name must start with a letter and contain only alphanumeric characters."'',
     ''  }'',
     ''}'',
     '''',
     ''variable "database_username" {'',
     ''  description = "Username for the database"'',
     ''  type        = string'',
     ''  default     = "admin"'',
     ''  '',
     ''  validation {'',
     ''    condition     = length(var.database_username) >= 4'',
     ''    error_message = "Database username must be at least 4 characters long."'',
     ''  }'',
     ''}'',
     '''',
     ''variable "allowed_ssh_cidrs" {'',
     ''  description = "CIDR blocks allowed to SSH to bastion host"'',
     ''  type        = list(string)'',
     ''  default     = ["0.0.0.0/0"]'',
     ''  '',
     ''  validation {'',
     ''    condition     = length(var.allowed_ssh_cidrs) > 0'',
     ''    error_message = "At least one CIDR block must be specified for SSH access."'',
     ''  }'',
     ''}'',
     '''',
     ''variable "backup_retention_days" {'',
     ''  description = "Number of days to retain database backups"'',
     ''  type        = number'',
     ''  default     = 7'',
     ''  '',
     ''  validation {'',
     ''    condition     = var.backup_retention_days >= 0 && var.backup_retention_days <= 35'',
     ''    error_message = "Backup retention must be between 0 and 35 days."'',
     ''  }'',
     ''}'',
     '''',
     ''variable "enable_deletion_protection" {'',
     ''  description = "Enable deletion protection for critical resources"'',
     ''  type        = bool'',
     ''  default     = false'',
     ''}'',
     '''',
     ''variable "monitoring_enabled" {'',
     ''  description = "Enable enhanced monitoring"'',
     ''  type        = bool'',
     ''  default     = true'',
     ''}'',
     '''',
     ''variable "tags" {'',
     ''  description = "Additional tags to apply to all resources"'',
     ''  type        = map(string)'',
     ''  default     = {}'',
     ''}'']\<close>

text \<open>The literal \<^verbatim>\<open>outputs_tf\<close> of \<^verbatim>\<open>create_realistic_terraform_project\<close>.\<close>

definition outputs_tf :: string where
  \<open>outputs_tf = lines_text
    ['''',
     ''output "vpc_id" {'',
     ''  description = "ID of the VPC"'',
     ''  value       = aws_vpc.main.id'',
     ''}'',
     '''',
     ''output "vpc_cidr" {'',
     ''  description = "CIDR block of the VPC"'',
     ''  value       = aws_vpc.main.cidr_block'',
     ''}'',
     '''',
     ''output "internet_gateway_id" {'',
     ''  description = "ID of the Internet Gateway"'',
     ''  value       = aws_internet_gateway.main.id'',
     ''}'',
     '''',
     ''output "public_subnet_ids" {'',
     ''  description = "IDs of the public subnets"'',
     ''  value       = aws_subnet.public[*].id'',
     ''}'',
     '''',
     ''output "private_subnet_ids" {'',
     ''  description = "IDs of the private subnets"'',
     ''  value       = aws_subnet.private[*].id'',
     ''}'',
     '''',
     ''output "nat_gateway_id" {'',
     ''  description = "ID of the NAT Gateway"'',
     ''  value       = aws_nat_gateway.main.id'',
     ''}'',
     '''',
     ''output "nat_gateway_ip" {'',
     ''  description = "Public IP of the NAT Gateway"'',
     ''  value       = aws_eip.nat.public_ip'',
     ''}'',
     '''',
     ''output "load_balancer_arn" {'',
     ''  description = "ARN of the Application Load Balancer"'',
     ''  value       = aws_lb.main.arn'',
     ''}'',
     '''',
     ''output "load_balancer_dns" {'',
     ''  description = "DNS name of the Application Load Balancer"'',
     ''  value       = aws_lb.main.dns_name'',
     ''}'',
     '''',
     ''output "load_balancer_zone_id" {'',
     ''  description = "Zone ID of the Application Load Balancer"'',
     ''  value       = aws_lb.main.zone_id'',
     ''}'',
     '''',
     ''output "target_group_arn" {'',
     ''  description = "ARN of the target group"'',
     ''  value       = aws_lb_target_group.web.arn'',
     ''}'',
     '''',
     ''output "autoscaling_group_arn" {'',
     ''  description = "ARN of the Auto Scaling Group"'',
     ''  value       = aws_autoscaling_group.web.arn'',
     ''}'',
     '''',
     ''output "autoscaling_group_name" {'',
     ''  description = "Name of the Auto Scaling Group"'',
     ''  value       = aws_autoscaling_group.web.name'',
     ''}'',
     '''',
     ''output "launch_template_id" {'',
     ''  description = "ID of the launch template"'',
     ''  value       = aws_launch_template.web.id'',
     ''}'',
     '''',
     ''output "database_endpoint" {'',
     ''  description = "RDS instance endpoint"'',
     ''  value       = aws_db_instance.main.endpoint'',
     ''  sensitive   = true'',
     ''}'',
     '''',
     ''output "database_port" {'',
     ''  description = "RDS instance port"'',
     ''  value       = aws_db_instance.main.port'',
     ''}'',
     '''',
     ''output "database_name" {'',
     ''  description = "Database name"'',
     ''  value       = aws_db_instance.main.db_name'',
     ''}'',
     '''',
     ''output "database_username" {'',
     ''  description = "Database username"'',
     ''  value       = aws_db_instance.main.username'',
     ''  sensitive   = true'',
     ''}'',
     '''',
     ''output "bastion_instance_id" {'',
     ''  description = "ID of the bastion host"'',
     ''  value       = aws_instance.bastion.id'',
     ''}'',
     '''',
     ''output "bastion_public_ip" {'',
     ''  description = "Public IP of the bastion host"'',
     ''  value       = aws_instance.bastion.public_ip'',
     ''}'',
     '''',
     ''output "web_security_group_id" {'',
     ''  description = "ID of the web security group"'',
     ''  value       = aws_security_group.web.id'',
     ''}'',
     '''',
     ''output "database_security_group_id" {'',
     ''  description = "ID of the database security group"'',
     ''  value       = aws_security_group.database.id'',
     ''}'',
     '''',
     ''output "bastion_security_group_id" {'',
     ''  description = "ID of the bastion security group"'',
     ''  value       = aws_security_group.bastion.id'',
     ''}'',
     '''',
     ''output "availability_zones" {'',
     ''  description = "Availability zones used"'',
     ''  value       = var.availability_zones'',
     ''}'',
     '''',
     ''output "region" {'',
     ''  description = "AWS region"'',
     ''  value       = var.aws_region'',
     ''}'']\<close>

text \<open>The text written to \<^verbatim>\<open>user_data.sh\<close>.\<close>

definition user_data_sh :: string where
  \<open>user_data_sh = lines_text
    [''#!/bin/bash'',
     ''yum update -y'',
     ''yum install -y httpd'',
     ''systemctl start httpd'',
     ''systemctl enable httpd'',
     ''echo "<h1>Hello from ${project_name}</h1>" > /var/www/html/index.html'',
     ''echo "<p>Instance: $(curl -s http://169.254.169.254/latest/meta-data/instance-id)</p>" >> /var/www/html/index.html'']\<close>

section \<open>Files and exceptions\<close>

text \<open>
  The file system is a map from path strings to files. A path that is not in the map does
  not exist (\<^verbatim>\<open>open\<close> raises \<^verbatim>\<open>FileNotFoundError\<close>); a file is readable, with its content,
  or unreadable: opening or reading it raises another exception, whose message is kept.
  Directories are implicit, so \<^verbatim>\<open>os.makedirs(workspace, exist_ok=True)\<close> changes nothing,
  and writing a file is assumed to succeed.
\<close>

datatype file_state = Readable string | Unreadable string

type_synonym filesystem = "string \<rightharpoonup> file_state"

text \<open>The path \<^verbatim>\<open>f"{workspace}/{name}"\<close>.\<close>

definition workspace_file :: "string \<Rightarrow> string \<Rightarrow> string" where
  "workspace_file workspace name = workspace @ ''/'' @ name"

text \<open>\<^verbatim>\<open>with open(path, "w") as f: f.write(content)\<close>.\<close>

definition write_file :: "string \<Rightarrow> string \<Rightarrow> filesystem \<Rightarrow> filesystem" where
  "write_file path content fs = fs(path \<mapsto> Readable content)"

text \<open>The file tree of a workspace: its files by their names relative to the workspace.\<close>

definition tree :: "string \<Rightarrow> filesystem \<Rightarrow> filesystem" where
  "tree workspace fs = (\<lambda>name. fs (workspace_file workspace name))"

text \<open>
  The exceptions that no handler of the modelled functions catches. Python's true division
  \<^verbatim>\<open>a / b\<close> raises \<^verbatim>\<open>ZeroDivisionError\<close> when the divisor is zero; \<^verbatim>\<open>max\<close> and \<^verbatim>\<open>min\<close>
  raise \<^verbatim>\<open>ValueError\<close> on an empty sequence; \<^verbatim>\<open>os.listdir\<close> raises
  \<^verbatim>\<open>FileNotFoundError\<close> on the empty path. A division by a non-zero literal is written
  with \<open>/\<close>.
\<close>

datatype py_error = ZeroDivisionError | ValueError | FileNotFoundError

definition py_truediv :: "rat \<Rightarrow> rat \<Rightarrow> py_error + rat" where
  "py_truediv a b = (if b = 0 then Inl ZeroDivisionError else Inr (a / b))"

text \<open>
  A call of the external symbol search: it raises an exception (a subclass of
  \<^verbatim>\<open>Exception\<close>, kept as its message \<^verbatim>\<open>str(e)\<close>) or returns a value (kept as its
  \<^verbatim>\<open>str\<close>).
\<close>

datatype call_outcome = Raised string | Returned string

section \<open>Fixture materialisation\<close>

text \<open>\<^verbatim>\<open>ErrorDetectionTester.create_error_scenarios\<close>.\<close>

definition create_error_scenarios :: "string \<Rightarrow> filesystem \<Rightarrow> filesystem" where
  "create_error_scenarios workspace fs =
     write_file (workspace_file workspace ''variables_errors.tf'') variables_errors_tf
       (write_file (workspace_file workspace ''reference_errors.tf'') reference_errors_tf
         (write_file (workspace_file workspace ''logic_errors.tf'') logic_errors_tf
           (write_file (workspace_file workspace ''syntax_errors.tf'') syntax_errors_tf fs)))"

text \<open>\<^verbatim>\<open>TerraformTokenBenchmark.create_realistic_terraform_project\<close>.\<close>

definition create_realistic_terraform_project :: "string \<Rightarrow> filesystem \<Rightarrow> filesystem" where
  "create_realistic_terraform_project workspace_path fs =
     write_file (workspace_file workspace_path ''user_data.sh'') user_data_sh
       (write_file (workspace_file workspace_path ''outputs.tf'') outputs_tf
         (write_file (workspace_file workspace_path ''variables.tf'') variables_tf
           (write_file (workspace_file workspace_path ''main.tf'') main_tf fs)))"

section \<open>The token benchmark\<close>

record TokenUsage =
  operation :: string
  usage_method :: string
  input_tokens :: int
  output_tokens :: int
  total_tokens :: int
  content_length :: nat
  efficiency_ratio :: rat
  success :: bool

record BenchmarkResult =
  scenario :: string
  lsp_usage :: TokenUsage
  non_lsp_usage :: TokenUsage
  token_savings :: int
  efficiency_improvement :: rat
  context_reduction :: rat

abbreviation nl :: string where
  "nl \<equiv> [CHR 0x0A]"

text \<open>
  The \<^verbatim>\<open>try\<close> statement of \<^verbatim>\<open>benchmark_lsp_operation\<close>: the values of \<^verbatim>\<open>result\<close> (as
  \<^verbatim>\<open>str(result)\<close>), \<^verbatim>\<open>success\<close> and \<^verbatim>\<open>input_context\<close> after it. The argument \<open>kwargs\<close> is
  the printed form of the keyword arguments.
\<close>

definition lsp_attempt :: "string \<Rightarrow> string \<Rightarrow> call_outcome \<Rightarrow> string \<times> bool \<times> string" where
  "lsp_attempt operation_name kwargs lsp_func =
     (case lsp_func of
        Returned result \<Rightarrow>
          (result, True,
           ''Task: '' @ operation_name @ nl @ ''Using LSP semantic search'' @ nl
             @ ''Parameters: '' @ kwargs)
      | Raised e \<Rightarrow>
          (''Error: '' @ e, False,
           ''Task: '' @ operation_name @ nl @ ''Failed operation''))"

text \<open>\<^verbatim>\<open>TerraformTokenBenchmark.benchmark_lsp_operation\<close>.\<close>

definition benchmark_lsp_operation ::
  "string \<Rightarrow> string \<Rightarrow> call_outcome \<Rightarrow> py_error + TokenUsage" where
  "benchmark_lsp_operation operation_name kwargs lsp_func =
     (case lsp_attempt operation_name kwargs lsp_func of
        (result, ok, input_context) \<Rightarrow>
          (case count_operation_tokens input_context result of
             (input_toks, output_toks, total_toks) \<Rightarrow>
               (case py_truediv (of_int total_toks) (of_nat (max (length result) 1)) of
                  Inl err \<Rightarrow> Inl err
                | Inr ratio \<Rightarrow>
                    Inr \<lparr>operation = operation_name,
                         usage_method = ''LSP'',
                         input_tokens = input_toks,
                         output_tokens = output_toks,
                         total_tokens = total_toks,
                         content_length = length result,
                         efficiency_ratio = ratio,
                         success = ok\<rparr>)))"

text \<open>
  The reading loop of \<^verbatim>\<open>benchmark_non_lsp_operation\<close>: a missing file is skipped
  (\<^verbatim>\<open>except FileNotFoundError: continue\<close>), any other exception leaves the loop.
\<close>

fun read_files :: "filesystem \<Rightarrow> string \<Rightarrow> string list \<Rightarrow> string \<Rightarrow> string + string" where
  "read_files fs workspace_path [] all_content = Inr all_content"
| "read_files fs workspace_path (file_path # rest) all_content =
     (case fs (workspace_file workspace_path file_path) of
        None \<Rightarrow> read_files fs workspace_path rest all_content
      | Some (Unreadable e) \<Rightarrow> Inl e
      | Some (Readable content) \<Rightarrow>
          read_files fs workspace_path rest
            (all_content @ nl @ ''# File: '' @ file_path @ nl @ content @ nl))"

text \<open>
  What one round of that loop appends to \<^verbatim>\<open>all_content\<close> when no exception leaves the
  loop: the section of a readable file, and nothing for a missing file.
\<close>

definition file_section :: "filesystem \<Rightarrow> string \<Rightarrow> string \<Rightarrow> string" where
  "file_section fs workspace_path file_path =
     (case fs (workspace_file workspace_path file_path) of
        Some (Readable content) \<Rightarrow> nl @ ''# File: '' @ file_path @ nl @ content @ nl
      | _ \<Rightarrow> [])"

text \<open>
  The \<^verbatim>\<open>try\<close> statement of \<^verbatim>\<open>benchmark_non_lsp_operation\<close>: the values of \<^verbatim>\<open>result\<close>,
  \<^verbatim>\<open>success\<close> and \<^verbatim>\<open>input_context\<close> after it.
\<close>

definition non_lsp_attempt ::
  "filesystem \<Rightarrow> string \<Rightarrow> string \<Rightarrow> string list \<Rightarrow> string \<times> bool \<times> string" where
  "non_lsp_attempt fs workspace_path operation_name files_to_read =
     (case read_files fs workspace_path files_to_read [] of
        Inr all_content \<Rightarrow>
          (''Found content in '' @ str_nat (length files_to_read) @ '' files, total ''
             @ str_nat (length all_content) @ '' characters'',
           True,
           ''Task: '' @ operation_name @ nl @ ''Reading entire files for context'' @ nl
             @ ''Files: '' @ str_list files_to_read @ nl @ nl @ all_content)
      | Inl e \<Rightarrow>
          (''Error: '' @ e, False,
           ''Task: '' @ operation_name @ nl @ ''Failed to read files: ''
             @ str_list files_to_read))"

text \<open>\<^verbatim>\<open>TerraformTokenBenchmark.benchmark_non_lsp_operation\<close>.\<close>

definition benchmark_non_lsp_operation ::
  "filesystem \<Rightarrow> string \<Rightarrow> string \<Rightarrow> string list \<Rightarrow> py_error + TokenUsage" where
  "benchmark_non_lsp_operation fs workspace_path operation_name files_to_read =
     (case non_lsp_attempt fs workspace_path operation_name files_to_read of
        (result, ok, input_context) \<Rightarrow>
          (case count_operation_tokens input_context result of
             (input_toks, output_toks, total_toks) \<Rightarrow>
               (case py_truediv (of_int total_toks) (of_nat (max (length result) 1)) of
                  Inl err \<Rightarrow> Inl err
                | Inr ratio \<Rightarrow>
                    Inr \<lparr>operation = operation_name,
                         usage_method = ''Non-LSP'',
                         input_tokens = input_toks,
                         output_tokens = output_toks,
                         total_tokens = total_toks,
                         content_length = length result,
                         efficiency_ratio = ratio,
                         success = ok\<rparr>)))"

text \<open>
  An entry of the scenario list of \<^verbatim>\<open>run_benchmark_scenarios\<close>. The \<^verbatim>\<open>lsp_func\<close> of every
  entry is a call of the symbol search with substring matching; the entry keeps the
  \<^verbatim>\<open>name_path\<close> of that call as \<open>lsp_name_path\<close>, and the search is a parameter of the
  run.
\<close>

record scenario_entry =
  name :: string
  lsp_name_path :: string
  non_lsp_files :: "string list"

definition scenarios :: "scenario_entry list" where
  "scenarios =
     [\<lparr>name = ''Find all VPC resources'', lsp_name_path = ''aws_vpc'',
       non_lsp_files = [''main.tf'']\<rparr>,
      \<lparr>name = ''Find all security groups'', lsp_name_path = ''security_group'',
       non_lsp_files = [''main.tf'']\<rparr>,
      \<lparr>name = ''Find all variables'', lsp_name_path = ''variable'',
       non_lsp_files = [''variables.tf'']\<rparr>,
      \<lparr>name = ''Find all outputs'', lsp_name_path = ''output'',
       non_lsp_files = [''outputs.tf'']\<rparr>,
      \<lparr>name = ''Find database-related resources'', lsp_name_path = ''db'',
       non_lsp_files = [''main.tf'', ''variables.tf'', ''outputs.tf'']\<rparr>,
      \<lparr>name = ''Find load balancer configuration'', lsp_name_path = ''aws_lb'',
       non_lsp_files = [''main.tf'', ''outputs.tf'']\<rparr>,
      \<lparr>name = ''Find all AWS instances'', lsp_name_path = ''aws_instance'',
       non_lsp_files = [''main.tf'']\<rparr>,
      \<lparr>name = ''Find Auto Scaling configuration'', lsp_name_path = ''autoscaling'',
       non_lsp_files = [''main.tf'', ''variables.tf'', ''outputs.tf'']\<rparr>,
      \<lparr>name = ''Find provider configuration'', lsp_name_path = ''provider'',
       non_lsp_files = [''main.tf'']\<rparr>,
      \<lparr>name = ''Find terraform blocks'', lsp_name_path = ''terraform'',
       non_lsp_files = [''main.tf'']\<rparr>]"

text \<open>
  The body of the loop of \<^verbatim>\<open>run_benchmark_scenarios\<close> for one entry. The loop has no
  \<^verbatim>\<open>try\<close> of its own: an exception of the body would end the run.
\<close>

definition benchmark_scenario ::
  "(string \<Rightarrow> call_outcome) \<Rightarrow> filesystem \<Rightarrow> string \<Rightarrow> scenario_entry
     \<Rightarrow> py_error + BenchmarkResult" where
  "benchmark_scenario find_symbol_tool fs workspace_path entry =
     (case benchmark_lsp_operation (name entry) ''{}'' (find_symbol_tool (lsp_name_path entry)) of
        Inl err \<Rightarrow> Inl err
      | Inr lsp \<Rightarrow>
     (case benchmark_non_lsp_operation fs workspace_path (name entry) (non_lsp_files entry) of
        Inl err \<Rightarrow> Inl err
      | Inr non_lsp \<Rightarrow>
     (case py_truediv (of_int (total_tokens non_lsp - total_tokens lsp))
             (of_int (max (total_tokens non_lsp) 1)) of
        Inl err \<Rightarrow> Inl err
      | Inr q_total \<Rightarrow>
     (case py_truediv (of_int (input_tokens non_lsp - input_tokens lsp))
             (of_int (max (input_tokens non_lsp) 1)) of
        Inl err \<Rightarrow> Inl err
      | Inr q_input \<Rightarrow>
          Inr \<lparr>scenario = name entry,
               lsp_usage = lsp,
               non_lsp_usage = non_lsp,
               token_savings = total_tokens non_lsp - total_tokens lsp,
               efficiency_improvement = q_total * 100,
               context_reduction = q_input * 100\<rparr>))))"

fun run_scenarios ::
  "(string \<Rightarrow> call_outcome) \<Rightarrow> filesystem \<Rightarrow> string \<Rightarrow> scenario_entry list
     \<Rightarrow> py_error + BenchmarkResult list" where
  "run_scenarios find_symbol_tool fs workspace_path [] = Inr []"
| "run_scenarios find_symbol_tool fs workspace_path (entry # rest) =
     (case benchmark_scenario find_symbol_tool fs workspace_path entry of
        Inl err \<Rightarrow> Inl err
      | Inr result \<Rightarrow>
          (case run_scenarios find_symbol_tool fs workspace_path rest of
             Inl err \<Rightarrow> Inl err
           | Inr results \<Rightarrow> Inr (result # results)))"

text \<open>\<^verbatim>\<open>TerraformTokenBenchmark.run_benchmark_scenarios\<close>.\<close>

definition run_benchmark_scenarios ::
  "(string \<Rightarrow> call_outcome) \<Rightarrow> filesystem \<Rightarrow> string \<Rightarrow> py_error + BenchmarkResult list" where
  "run_benchmark_scenarios find_symbol_tool fs workspace_path =
     run_scenarios find_symbol_tool fs workspace_path scenarios"

text \<open>
  \<^verbatim>\<open>max(results, key=...)\<close> and \<^verbatim>\<open>min(results, key=...)\<close>: the first element with the
  greatest (least) key.
\<close>

fun max_by :: "('a \<Rightarrow> rat) \<Rightarrow> 'a \<Rightarrow> 'a list \<Rightarrow> 'a" where
  "max_by key best [] = best"
| "max_by key best (x # xs) = max_by key (if key best < key x then x else best) xs"

fun min_by :: "('a \<Rightarrow> rat) \<Rightarrow> 'a \<Rightarrow> 'a list \<Rightarrow> 'a" where
  "min_by key best [] = best"
| "min_by key best (x # xs) = min_by key (if key x < key best then x else best) xs"

text \<open>The dictionary that \<^verbatim>\<open>generate_report\<close> returns; its key \<^verbatim>\<open>scenarios\<close> is \<open>report_scenarios\<close>.\<close>

record report =
  total_scenarios :: nat
  overall_efficiency_gain :: rat
  average_efficiency_improvement :: rat
  average_context_reduction :: rat
  total_token_savings :: int
  lsp_success_rate :: rat
  non_lsp_success_rate :: rat
  cost_savings :: rat
  cost_efficiency :: rat
  best_scenario :: string
  best_efficiency :: rat
  worst_scenario :: string
  worst_efficiency :: rat
  report_scenarios :: "BenchmarkResult list"

text \<open>\<^verbatim>\<open>TerraformTokenBenchmark.generate_report\<close>.\<close>

definition generate_report :: "BenchmarkResult list \<Rightarrow> py_error + report" where
  "generate_report results =
     (let total_lsp_tokens = sum_list (map (\<lambda>r. total_tokens (lsp_usage r)) results);
          total_non_lsp_tokens = sum_list (map (\<lambda>r. total_tokens (non_lsp_usage r)) results);
          total_savings = total_non_lsp_tokens - total_lsp_tokens
      in
     (case py_truediv (of_int total_savings) (of_int (max total_non_lsp_tokens 1)) of
        Inl err \<Rightarrow> Inl err
      | Inr q_overall \<Rightarrow>
     (case py_truediv (sum_list (map efficiency_improvement results)) (of_nat (length results)) of
        Inl err \<Rightarrow> Inl err
      | Inr avg_efficiency \<Rightarrow>
     (case py_truediv (sum_list (map context_reduction results)) (of_nat (length results)) of
        Inl err \<Rightarrow> Inl err
      | Inr avg_context_reduction \<Rightarrow>
     (case py_truediv (of_nat (length (filter (\<lambda>r. success (lsp_usage r)) results)))
             (of_nat (length results)) of
        Inl err \<Rightarrow> Inl err
      | Inr q_lsp \<Rightarrow>
     (case py_truediv (of_nat (length (filter (\<lambda>r. success (non_lsp_usage r)) results)))
             (of_nat (length results)) of
        Inl err \<Rightarrow> Inl err
      | Inr q_non_lsp \<Rightarrow>
     (case results of
        [] \<Rightarrow> Inl ValueError
      | r # rs \<Rightarrow>
     (let best = max_by efficiency_improvement r rs;
          worst = min_by efficiency_improvement r rs;
          input_cost_per_1k = 3 / 100;
          output_cost_per_1k = 6 / 100;
          lsp_input_cost =
            of_int (sum_list (map (\<lambda>r. input_tokens (lsp_usage r)) results)) / 1000
              * input_cost_per_1k;
          lsp_output_cost =
            of_int (sum_list (map (\<lambda>r. output_tokens (lsp_usage r)) results)) / 1000
              * output_cost_per_1k;
          lsp_total_cost = lsp_input_cost + lsp_output_cost;
          non_lsp_input_cost =
            of_int (sum_list (map (\<lambda>r. input_tokens (non_lsp_usage r)) results)) / 1000
              * input_cost_per_1k;
          non_lsp_output_cost =
            of_int (sum_list (map (\<lambda>r. output_tokens (non_lsp_usage r)) results)) / 1000
              * output_cost_per_1k;
          non_lsp_total_cost = non_lsp_input_cost + non_lsp_output_cost;
          savings = non_lsp_total_cost - lsp_total_cost
      in
     (case py_truediv savings (max non_lsp_total_cost (1 / 100)) of
        Inl err \<Rightarrow> Inl err
      | Inr q_cost \<Rightarrow>
          Inr \<lparr>total_scenarios = length results,
               overall_efficiency_gain = q_overall * 100,
               average_efficiency_improvement = avg_efficiency,
               average_context_reduction = avg_context_reduction,
               total_token_savings = total_savings,
               lsp_success_rate = q_lsp * 100,
               non_lsp_success_rate = q_non_lsp * 100,
               cost_savings = savings,
               cost_efficiency = q_cost * 100,
               best_scenario = scenario best,
               best_efficiency = efficiency_improvement best,
               worst_scenario = scenario worst,
               worst_efficiency = efficiency_improvement worst,
               report_scenarios = results\<rparr>)))))))))"

section \<open>The error detection test\<close>

record known_error =
  err_type :: string
  description :: string
  pattern :: string
  file_name :: string

text \<open>The list \<^verbatim>\<open>known_errors\<close> of \<^verbatim>\<open>test_lsp_error_detection\<close>.\<close>

definition known_errors :: "known_error list" where
  "known_errors =
     [\<lparr>err_type = ''syntax_error'',
       description = ''Missing quotes around resource type'',
       pattern = ''aws_vpc'', file_name = ''syntax_errors.tf''\<rparr>,
      \<lparr>err_type = ''type_error'',
       description = ''Number instead of string for instance_type'',
       pattern = ''instance_type'', file_name = ''syntax_errors.tf''\<rparr>,
      \<lparr>err_type = ''missing_argument'',
       description = ''Missing required cidr_block'',
       pattern = ''incomplete'', file_name = ''syntax_errors.tf''\<rparr>,
      \<lparr>err_type = ''circular_dependency'',
       description = ''Circular dependency between security groups'',
       pattern = ''security_group'', file_name = ''logic_errors.tf''\<rparr>,
      \<lparr>err_type = ''invalid_reference'',
       description = ''Reference to non-existent subnet'',
       pattern = ''nonexistent'', file_name = ''reference_errors.tf''\<rparr>,
      \<lparr>err_type = ''undefined_variable'',
       description = ''Reference to undefined variable'',
       pattern = ''undefined_variable'', file_name = ''reference_errors.tf''\<rparr>,
      \<lparr>err_type = ''type_mismatch'',
       description = ''String value for number type'',
       pattern = ''not_a_number'', file_name = ''variables_errors.tf''\<rparr>]"

text \<open>
  An entry of \<^verbatim>\<open>detection_attempts\<close>. The keys \<^verbatim>\<open>symbols_found\<close> and \<^verbatim>\<open>error_message\<close> are
  each present in one of the two shapes of the entry only.
\<close>

record detection_attempt =
  attempt_error :: known_error
  detected :: bool
  symbols_found :: "nat option"
  error_message :: "string option"

text \<open>
  The entry that one round of the loop of \<^verbatim>\<open>test_lsp_error_detection\<close> appends to
  \<^verbatim>\<open>detection_attempts\<close>. The parameter \<open>json_len\<close> stands for
  \<^verbatim>\<open>len(json.loads(result))\<close>: the number of decoded symbols, or the message of the
  exception that decoding or \<^verbatim>\<open>len\<close> raises. An empty result is not decoded. An
  exception of the search, of decoding or of \<^verbatim>\<open>len\<close> is caught by the \<^verbatim>\<open>except\<close> clause
  of the round.
\<close>

definition detection_attempt_for ::
  "(string \<Rightarrow> call_outcome) \<Rightarrow> (string \<Rightarrow> string + nat) \<Rightarrow> known_error
     \<Rightarrow> detection_attempt" where
  "detection_attempt_for find_symbol_tool json_len error =
     (case (case find_symbol_tool (pattern error) of
              Raised e \<Rightarrow> Inl e
            | Returned result \<Rightarrow> if result = [] then Inr 0 else json_len result) of
        Inr n \<Rightarrow>
          \<lparr>attempt_error = error, detected = (0 < n),
            symbols_found = Some n, error_message = None\<rparr>
      | Inl e \<Rightarrow>
          \<lparr>attempt_error = error, detected = False,
            symbols_found = None, error_message = Some e\<rparr>)"

text \<open>
  One round, on the lists \<^verbatim>\<open>detected_errors\<close> and \<^verbatim>\<open>detection_attempts\<close>: a detected
  error is appended to the first, the entry to the second.
\<close>

definition detection_round ::
  "(string \<Rightarrow> call_outcome) \<Rightarrow> (string \<Rightarrow> string + nat) \<Rightarrow> known_error
     \<Rightarrow> known_error list \<times> detection_attempt list
     \<Rightarrow> known_error list \<times> detection_attempt list" where
  "detection_round find_symbol_tool json_len error acc =
     (case acc of (detected_errs, attempts) \<Rightarrow>
        (let attempt = detection_attempt_for find_symbol_tool json_len error
         in ((if detected attempt then detected_errs @ [error] else detected_errs),
             attempts @ [attempt])))"

fun detection_loop ::
  "(string \<Rightarrow> call_outcome) \<Rightarrow> (string \<Rightarrow> string + nat) \<Rightarrow> known_error list
     \<Rightarrow> known_error list \<times> detection_attempt list
     \<Rightarrow> known_error list \<times> detection_attempt list" where
  "detection_loop find_symbol_tool json_len [] acc = acc"
| "detection_loop find_symbol_tool json_len (error # rest) acc =
     detection_loop find_symbol_tool json_len rest
       (detection_round find_symbol_tool json_len error acc)"

text \<open>The dictionary that \<^verbatim>\<open>test_lsp_error_detection\<close> returns.\<close>

record lsp_results =
  detection_rate :: rat
  detected_errors :: nat
  total_errors :: nat
  errors_found :: "string list"
  detection_attempts :: "detection_attempt list"

text \<open>
  \<^verbatim>\<open>test_lsp_error_detection\<close> from its loop on, for any list of known errors. The
  detection rate divides by the length of that list as it is.
\<close>

definition lsp_error_detection ::
  "known_error list \<Rightarrow> (string \<Rightarrow> call_outcome) \<Rightarrow> (string \<Rightarrow> string + nat)
     \<Rightarrow> py_error + lsp_results" where
  "lsp_error_detection errors find_symbol_tool json_len =
     (case detection_loop find_symbol_tool json_len errors ([], []) of
        (detected_errs, attempts) \<Rightarrow>
          (case py_truediv (of_nat (length detected_errs)) (of_nat (length errors)) of
             Inl err \<Rightarrow> Inl err
           | Inr q \<Rightarrow>
               Inr \<lparr>detection_rate = q * 100,
                    detected_errors = length detected_errs,
                    total_errors = length errors,
                    errors_found = map description detected_errs,
                    detection_attempts = attempts\<rparr>))"

text \<open>\<^verbatim>\<open>ErrorDetectionTester.test_lsp_error_detection\<close>, on the list of the source.\<close>

definition test_lsp_error_detection ::
  "(string \<Rightarrow> call_outcome) \<Rightarrow> (string \<Rightarrow> string + nat) \<Rightarrow> py_error + lsp_results" where
  "test_lsp_error_detection find_symbol_tool json_len =
     lsp_error_detection known_errors find_symbol_tool json_len"

text \<open>The list \<^verbatim>\<open>error_patterns\<close> of \<^verbatim>\<open>test_traditional_error_detection\<close>.\<close>

definition error_patterns :: "string list" where
  "error_patterns =
     [''resource aws_vpc'', ''instance_type = 123'', ''nonexistent'', ''undefined_variable'',
      ''not_a_number'']"




text \<open>
  The scan of \<^verbatim>\<open>test_traditional_error_detection\<close> over \<open>listing\<close>, the names in the order in
  which \<^verbatim>\<open>os.listdir(workspace)\<close> returned them: the list \<^verbatim>\<open>detected_patterns\<close>. The
  source opens \<^verbatim>\<open>os.path.join(self.workspace, filename)\<close>, which is the entry \<open>filename\<close> of
  the workspace: for a name of the listing and a workspace that is not the empty path, the
  joined path and the path under which the file tree holds the entry are the same up to a
  doubled slash (lemma \<open>os_path_join_same_file\<close> below), so the entry is read from the tree.
  A file that cannot be read is reported on the console and skipped.
\<close>

fun scan_files :: "filesystem \<Rightarrow> string \<Rightarrow> string list \<Rightarrow> string list" where
  "scan_files fs workspace [] = []"
| "scan_files fs workspace (filename # rest) =
     (if endswith filename ''.tf''
      then (case tree workspace fs filename of
              Some (Readable content) \<Rightarrow>
                filter (\<lambda>pattern. str_contains pattern content) error_patterns
            | _ \<Rightarrow> [])
      else [])
     @ scan_files fs workspace rest"

text \<open>
  The dictionary that \<^verbatim>\<open>test_traditional_error_detection\<close> returns. The order of
  \<^verbatim>\<open>list(set(detected_patterns))\<close> is not determined, so the key is a set here.
\<close>

record traditional_results =
  traditional_detection_rate :: rat
  patterns_detected :: nat
  total_patterns :: nat
  detected_patterns :: "string set"

text \<open>
  \<^verbatim>\<open>ErrorDetectionTester.test_traditional_error_detection\<close>, on the file system that the
  constructor of the tester has materialised the fixture into. On the empty path
  \<^verbatim>\<open>os.listdir\<close> raises, outside every \<^verbatim>\<open>try\<close> of the method.
\<close>

definition test_traditional_error_detection ::
  "filesystem \<Rightarrow> string \<Rightarrow> string list \<Rightarrow> py_error + traditional_results" where
  "test_traditional_error_detection fs workspace listing =
     (if workspace = [] then Inl FileNotFoundError
      else
        let found = scan_files fs workspace listing in
        case py_truediv (of_nat (length (remdups found))) (of_nat (length error_patterns)) of
          Inl err \<Rightarrow> Inl err
        | Inr q \<Rightarrow>
            Inr \<lparr>traditional_detection_rate = q * 100,
                 patterns_detected = length (remdups found),
                 total_patterns = length error_patterns,
                 detected_patterns = set found\<rparr>)"

text \<open>The comparison of \<^verbatim>\<open>main\<close>: the improvement factor and whether the target is met.\<close>

record combined_results =
  lsp_part :: lsp_results
  traditional_part :: traditional_results
  improvement_factor :: rat
  target_met :: bool

definition compare_results ::
  "lsp_results \<Rightarrow> traditional_results \<Rightarrow> py_error + combined_results" where
  "compare_results lsp traditional =
     (case py_truediv (detection_rate lsp) (max (traditional_detection_rate traditional) 1) of
        Inl err \<Rightarrow> Inl err
      | Inr factor \<Rightarrow>
          Inr \<lparr>lsp_part = lsp, traditional_part = traditional,
               improvement_factor = factor, target_met = (4 \<le> factor)\<rparr>)"

section \<open>The claim analysis of the A/B test\<close>







chapter \<open>Properties\<close>

section \<open>The token estimator\<close>

subsection \<open>Arithmetic of the estimate\<close>

lemma py_int_formula:
  "py_int (of_nat n / 4 + of_nat k * (3 / 10)) = (5 * int n + 6 * int k) div 20"
proof -
  have eq: "(of_nat n / 4 + of_nat k * (3 / 10) :: rat) = of_int (5 * int n + 6 * int k) / of_int 20"
    by (simp add: field_simps)
  have nonneg: "(0::rat) \<le> of_nat n / 4 + of_nat k * (3 / 10)"
    by simp
  show ?thesis
    unfolding py_int_def using nonneg
    by (simp only: if_True eq floor_divide_of_int_eq)
qed

lemma strip_Nil: "strip [] = []"
  by (simp add: strip_def lstrip_def rstrip_def)

lemma estimate_tokens_closed:
  "estimate_tokens (Some t) =
     (5 * int (length (re_sub_ws (strip t))) +
      6 * int (length (filter (\<lambda>c. c \<in> special_chars_class) (re_sub_ws (strip t))))) div 20"
proof (cases "t = []")
  case True
  then show ?thesis
    by (simp add: estimate_tokens_def strip_Nil)
next
  case False
  then show ?thesis
    by (simp only: estimate_tokens_def Let_def option.case if_False py_int_formula)
qed

lemma estimate_tokens_nonneg: "0 \<le> estimate_tokens text"
proof (cases "text")
  case None
  then show ?thesis by (simp add: estimate_tokens_def)
next
  case (Some t)
  show ?thesis
    unfolding Some estimate_tokens_closed by (rule pos_imp_zdiv_nonneg_iff [THEN iffD2]) simp_all
qed

subsection \<open>Whitespace normalisation\<close>

lemma spec_normalize_space:
  "is_space c \<Longrightarrow> spec_normalize (c # cs) = CHR '' '' # spec_normalize (dropWhile is_space cs)"
  by (induction cs arbitrary: c) simp_all

lemma spec_normalize_nonspace:
  "\<not> is_space c \<Longrightarrow> spec_normalize (c # cs) = c # spec_normalize cs"
  by (cases cs) simp_all

lemma re_sub_ws_spec: "re_sub_ws s = spec_normalize s"
  by (induction s rule: re_sub_ws.induct) (simp_all add: spec_normalize_space spec_normalize_nonspace)

lemma re_sub_ws_append:
  "u = [] \<or> \<not> is_space (last u) \<Longrightarrow> re_sub_ws (u @ v) = re_sub_ws u @ re_sub_ws v"
proof (induction u rule: re_sub_ws.induct)
  case 1
  then show ?case by simp
next
  case (2 c cs)
  show ?case
  proof (cases "is_space c")
    case True
    with 2(3) have ne: "cs \<noteq> []" and lst: "\<not> is_space (last cs)"
      by (auto split: if_splits)
    then have ex: "\<exists>x\<in>set cs. \<not> is_space x"
      using last_in_set by blast
    then have dw: "dropWhile is_space (cs @ v) = dropWhile is_space cs @ v"
      by (auto simp: dropWhile_append1)
    have dne: "dropWhile is_space cs \<noteq> []"
      using ex by (simp add: dropWhile_eq_Nil_conv)
    have "last (dropWhile is_space cs) = last cs"
      using dne by (metis last_appendR takeWhile_dropWhile_id)
    with lst dne have "dropWhile is_space cs = [] \<or> \<not> is_space (last (dropWhile is_space cs))"
      by simp
    from 2(1)[OF True this] True dw show ?thesis
      by simp
  next
    case False
    show ?thesis
    proof (cases "cs = []")
      case True
      with False show ?thesis by simp
    next
      case ne: False
      with 2(3) have "cs = [] \<or> \<not> is_space (last cs)"
        by simp
      from 2(2)[OF False this] False show ?thesis
        by simp
    qed
  qed
qed

subsection \<open>Stripping and appending\<close>

lemma rstrip_decomp: "\<exists>w. a = rstrip a @ w"
  unfolding rstrip_def
  by (metis rev_append rev_rev_ident takeWhile_dropWhile_id)

lemma rstrip_last: "rstrip a = [] \<or> \<not> is_space (last (rstrip a))"
  unfolding rstrip_def
  by (metis hd_dropWhile last_rev rev_is_Nil_conv)

lemma rstrip_append_space: "\<forall>x\<in>set b. is_space x \<Longrightarrow> rstrip (a @ b) = rstrip a"
  unfolding rstrip_def by (simp add: dropWhile_append)

lemma rstrip_append_nonspace:
  "\<not> (\<forall>x\<in>set b. is_space x) \<Longrightarrow> rstrip (a @ b) = a @ rstrip b"
  unfolding rstrip_def by (auto simp: dropWhile_append)

lemma lstrip_append_nonspace:
  "\<not> (\<forall>x\<in>set a. is_space x) \<Longrightarrow> lstrip (a @ b) = lstrip a @ b"
  unfolding lstrip_def by (auto simp: dropWhile_append)

lemma strip_all_space: "\<forall>x\<in>set a. is_space x \<Longrightarrow> strip a = []"
proof -
  assume "\<forall>x\<in>set a. is_space x"
  then have "dropWhile is_space a = []"
    by (simp only: dropWhile_eq_Nil_conv)
  then show ?thesis
    unfolding strip_def lstrip_def rstrip_def by (simp only: rev.simps dropWhile.simps)
qed

lemma cleaned_prefix: "prefix (re_sub_ws (strip t1)) (re_sub_ws (strip (t1 @ t2)))"
proof (cases "\<forall>x\<in>set t1. is_space x")
  case True
  then show ?thesis by (simp add: strip_all_space)
next
  case False
  then have l: "lstrip (t1 @ t2) = lstrip t1 @ t2"
    by (rule lstrip_append_nonspace)
  obtain w where w: "lstrip t1 = rstrip (lstrip t1) @ w"
    using rstrip_decomp by blast
  have "\<exists>v. strip (t1 @ t2) = strip t1 @ v"
  proof (cases "\<forall>x\<in>set t2. is_space x")
    case True
    then show ?thesis
      by (simp add: strip_def l rstrip_append_space)
  next
    case False
    then have "strip (t1 @ t2) = lstrip t1 @ rstrip t2"
      by (simp add: strip_def l rstrip_append_nonspace)
    also have "\<dots> = strip t1 @ (w @ rstrip t2)"
      using w by (simp add: strip_def)
    finally show ?thesis by blast
  qed
  then obtain v where v: "strip (t1 @ t2) = strip t1 @ v"
    by blast
  have "strip t1 = [] \<or> \<not> is_space (last (strip t1))"
    unfolding strip_def by (rule rstrip_last)
  then have "re_sub_ws (strip t1 @ v) = re_sub_ws (strip t1) @ re_sub_ws v"
    by (rule re_sub_ws_append)
  with v show ?thesis by simp
qed

text \<open>
  C1 (as amended). For every text the estimate is a non-negative integer; absent and empty
  text give 0; otherwise it is the estimate the specification describes, computed on the
  text with its leading and trailing whitespace removed: whitespace runs become single
  spaces, a quarter of the length plus 0.3 per punctuation character, truncated, which is
  \<open>(5 * length + 6 * punctuation) div 20\<close>.
\<close>

theorem estimate_tokens_spec:
  "0 \<le> estimate_tokens text
   \<and> estimate_tokens None = 0
   \<and> estimate_tokens (Some []) = 0
   \<and> estimate_tokens (Some t) = spec_estimate (Some (strip t))
   \<and> estimate_tokens (Some t) =
       (5 * int (length (spec_normalize (strip t))) +
        6 * int (length (filter (\<lambda>c. c \<in> special_chars_class) (spec_normalize (strip t))))) div 20"
proof -
  have "spec_estimate (Some (strip t)) =
      (5 * int (length (spec_normalize (strip t))) +
       6 * int (length (filter (\<lambda>c. c \<in> special_chars_class) (spec_normalize (strip t))))) div 20"
    unfolding spec_estimate_def option.case mult.commute [of "3 / 10"] by (rule py_int_formula)
  then show ?thesis
    by (simp add: estimate_tokens_nonneg estimate_tokens_closed re_sub_ws_spec)
      (simp add: estimate_tokens_def strip_Nil)
qed

theorem estimate_tokens_spec_witness:
  "estimate_tokens (Some ''a  {b}  '') = spec_estimate (Some (strip ''a  {b}  ''))
   \<and> estimate_tokens (Some ''a  {b}  '') = 1"
  using estimate_tokens_spec [of "Some ''a  {b}  ''" "''a  {b}  ''"]
  by (simp add: strip_def lstrip_def rstrip_def is_space_def special_chars_class_def)

text \<open>
  C1 as stated fails on text that starts or ends with whitespace: the code strips it before
  normalising, the stated algorithm keeps one space. On \<open>'' abc''\<close> the code counts three
  characters and returns 0, the stated algorithm counts four and gives 1.
\<close>

theorem estimate_tokens_leading_space_counterexample:
  "estimate_tokens (Some '' abc'') = 0 \<and> spec_estimate (Some '' abc'') = 1"
proof -
  have "re_sub_ws (strip '' abc'') = ''abc''"
    by (simp add: strip_def lstrip_def rstrip_def is_space_def)
  moreover have "spec_normalize '' abc'' = '' abc''"
    by (simp add: is_space_def)
  moreover have "py_int (of_nat 4 / 4 + (3 / 10) * of_nat 0) = 1"
    unfolding mult.commute [of "3 / 10"] py_int_formula by simp
  ultimately show ?thesis
    by (simp add: estimate_tokens_closed spec_estimate_def special_chars_class_def)
qed

text \<open>
  C2. The estimate is monotonic under appending: for non-empty \<open>t1\<close> and \<open>t2\<close> the estimate of
  \<open>t1 + t2\<close> is at least the estimate of \<open>t1\<close>.
\<close>

theorem estimate_tokens_monotone:
  "t1 \<noteq> [] \<Longrightarrow> t2 \<noteq> [] \<Longrightarrow> estimate_tokens (Some t1) \<le> estimate_tokens (Some (t1 @ t2))"
proof -
  obtain z where z: "re_sub_ws (strip (t1 @ t2)) = re_sub_ws (strip t1) @ z"
    using cleaned_prefix [of t1 t2] by (auto simp: prefix_def)
  show ?thesis
    unfolding estimate_tokens_closed z
    by (intro zdiv_mono1) simp_all
qed

theorem estimate_tokens_monotone_witness:
  "''a b'' \<noteq> [] \<and> '' c{'' \<noteq> []
   \<and> estimate_tokens (Some ''a b'') \<le> estimate_tokens (Some (''a b'' @ '' c{''))
   \<and> estimate_tokens (Some ''a b'') = 0 \<and> estimate_tokens (Some (''a b'' @ '' c{'')) = 1"
proof -
  have ne: "''a b'' \<noteq> []" "'' c{'' \<noteq> []"
    by simp_all
  have "estimate_tokens (Some ''a b'') = 0" "estimate_tokens (Some (''a b'' @ '' c{'')) = 1"
    by (simp_all add: estimate_tokens_closed strip_def lstrip_def rstrip_def is_space_def
        special_chars_class_def)
  with ne estimate_tokens_monotone [OF ne] show ?thesis
    by simp
qed

section \<open>The token benchmark\<close>

subsection \<open>Both operations return a record\<close>

lemma benchmark_lsp_operation_returns:
  "benchmark_lsp_operation operation_name kwargs outcome =
     (case lsp_attempt operation_name kwargs outcome of
        (result, ok, input_context) \<Rightarrow>
          Inr \<lparr>operation = operation_name,
               usage_method = ''LSP'',
               input_tokens = estimate_tokens (Some input_context),
               output_tokens = estimate_tokens (Some result),
               total_tokens = estimate_tokens (Some input_context) + estimate_tokens (Some result),
               content_length = length result,
               efficiency_ratio =
                 of_int (estimate_tokens (Some input_context) + estimate_tokens (Some result))
                   / of_nat (max (length result) 1),
               success = ok\<rparr>)"
  by (simp add: benchmark_lsp_operation_def count_operation_tokens_def Let_def
      py_truediv_def max_def split: prod.split)

lemma benchmark_non_lsp_operation_returns:
  "benchmark_non_lsp_operation fs workspace_path operation_name files_to_read =
     (case non_lsp_attempt fs workspace_path operation_name files_to_read of
        (result, ok, input_context) \<Rightarrow>
          Inr \<lparr>operation = operation_name,
               usage_method = ''Non-LSP'',
               input_tokens = estimate_tokens (Some input_context),
               output_tokens = estimate_tokens (Some result),
               total_tokens = estimate_tokens (Some input_context) + estimate_tokens (Some result),
               content_length = length result,
               efficiency_ratio =
                 of_int (estimate_tokens (Some input_context) + estimate_tokens (Some result))
                   / of_nat (max (length result) 1),
               success = ok\<rparr>)"
  by (simp add: benchmark_non_lsp_operation_def count_operation_tokens_def Let_def
      py_truediv_def max_def split: prod.split)

lemma benchmark_lsp_operation_total:
  "\<exists>usage. benchmark_lsp_operation operation_name kwargs outcome = Inr usage"
  by (cases "lsp_attempt operation_name kwargs outcome")
    (simp add: benchmark_lsp_operation_returns)

lemma benchmark_non_lsp_operation_total:
  "\<exists>usage. benchmark_non_lsp_operation fs workspace_path operation_name files_to_read = Inr usage"
  by (cases "non_lsp_attempt fs workspace_path operation_name files_to_read")
    (simp add: benchmark_non_lsp_operation_returns)

lemma lsp_usage_fields:
  assumes "benchmark_lsp_operation operation_name kwargs outcome = Inr usage"
  shows "operation usage = operation_name" and "usage_method usage = ''LSP''"
    and "input_tokens usage = estimate_tokens (Some (snd (snd (lsp_attempt operation_name kwargs outcome))))"
    and "output_tokens usage = estimate_tokens (Some (fst (lsp_attempt operation_name kwargs outcome)))"
    and "total_tokens usage = input_tokens usage + output_tokens usage"
    and "content_length usage = length (fst (lsp_attempt operation_name kwargs outcome))"
    and "success usage = fst (snd (lsp_attempt operation_name kwargs outcome))"
  using assms
  by (cases "lsp_attempt operation_name kwargs outcome";
      auto simp: benchmark_lsp_operation_returns)+

lemma non_lsp_usage_fields:
  assumes "benchmark_non_lsp_operation fs workspace_path operation_name files_to_read = Inr usage"
  shows "operation usage = operation_name" and "usage_method usage = ''Non-LSP''"
    and "input_tokens usage =
      estimate_tokens (Some (snd (snd (non_lsp_attempt fs workspace_path operation_name files_to_read))))"
    and "output_tokens usage =
      estimate_tokens (Some (fst (non_lsp_attempt fs workspace_path operation_name files_to_read)))"
    and "total_tokens usage = input_tokens usage + output_tokens usage"
    and "content_length usage =
      length (fst (non_lsp_attempt fs workspace_path operation_name files_to_read))"
    and "success usage = fst (snd (non_lsp_attempt fs workspace_path operation_name files_to_read))"
  using assms
  by (cases "non_lsp_attempt fs workspace_path operation_name files_to_read";
      auto simp: benchmark_non_lsp_operation_returns)+

subsection \<open>The loop over the scenarios\<close>

lemma benchmark_scenario_returns:
  "\<exists>r. benchmark_scenario find_symbol_tool fs workspace_path entry = Inr r
     \<and> scenario r = name entry
     \<and> benchmark_lsp_operation (name entry) ''{}'' (find_symbol_tool (lsp_name_path entry))
         = Inr (lsp_usage r)
     \<and> benchmark_non_lsp_operation fs workspace_path (name entry) (non_lsp_files entry)
         = Inr (non_lsp_usage r)
     \<and> token_savings r = total_tokens (non_lsp_usage r) - total_tokens (lsp_usage r)
     \<and> efficiency_improvement r =
         of_int (token_savings r) / of_int (max (total_tokens (non_lsp_usage r)) 1) * 100
     \<and> context_reduction r =
         of_int (input_tokens (non_lsp_usage r) - input_tokens (lsp_usage r))
           / of_int (max (input_tokens (non_lsp_usage r)) 1) * 100"
proof -
  obtain lsp where lsp:
    "benchmark_lsp_operation (name entry) ''{}'' (find_symbol_tool (lsp_name_path entry)) = Inr lsp"
    using benchmark_lsp_operation_total by blast
  obtain non_lsp where non_lsp:
    "benchmark_non_lsp_operation fs workspace_path (name entry) (non_lsp_files entry) = Inr non_lsp"
    using benchmark_non_lsp_operation_total by blast
  show ?thesis
    unfolding benchmark_scenario_def lsp non_lsp
    by (simp add: py_truediv_def max_def)
qed

lemma run_scenarios_returns:
  "\<exists>results. run_scenarios find_symbol_tool fs workspace_path entries = Inr results
     \<and> map Inr results = map (benchmark_scenario find_symbol_tool fs workspace_path) entries"
proof (induction entries)
  case Nil
  then show ?case by simp
next
  case (Cons entry rest)
  obtain r where r: "benchmark_scenario find_symbol_tool fs workspace_path entry = Inr r"
    using benchmark_scenario_returns by blast
  from Cons obtain rs where rs: "run_scenarios find_symbol_tool fs workspace_path rest = Inr rs"
      "map Inr rs = map (benchmark_scenario find_symbol_tool fs workspace_path) rest"
    by blast
  show ?case
    by (simp add: r rs)
qed

lemma run_scenarios_nth:
  assumes "run_scenarios find_symbol_tool fs workspace_path entries = Inr results"
  shows "length results = length entries"
    and "i < length entries \<Longrightarrow>
      benchmark_scenario find_symbol_tool fs workspace_path (entries ! i) = Inr (results ! i)"
proof -
  from run_scenarios_returns [of find_symbol_tool fs workspace_path entries] assms
  have m: "map Inr results = map (benchmark_scenario find_symbol_tool fs workspace_path) entries"
    by simp
  then show len: "length results = length entries"
    by (rule map_eq_imp_length_eq)
  assume "i < length entries"
  with len m show "benchmark_scenario find_symbol_tool fs workspace_path (entries ! i) = Inr (results ! i)"
    by (metis nth_map)
qed

lemma run_scenarios_member:
  assumes "run_scenarios find_symbol_tool fs workspace_path entries = Inr results"
    and "r \<in> set results"
  shows "\<exists>entry\<in>set entries. benchmark_scenario find_symbol_tool fs workspace_path entry = Inr r"
proof -
  from assms(2) obtain i where i: "i < length results" "results ! i = r"
    by (auto simp: in_set_conv_nth)
  with run_scenarios_nth [OF assms(1)] show ?thesis
    by (metis nth_mem)
qed

lemma run_scenarios_names:
  assumes "run_scenarios find_symbol_tool fs workspace_path entries = Inr results"
  shows "map scenario results = map name entries"
proof (rule nth_equalityI)
  show "length (map scenario results) = length (map name entries)"
    using run_scenarios_nth(1) [OF assms] by simp
next
  fix i assume "i < length (map scenario results)"
  then have i: "i < length entries" "i < length results"
    using run_scenarios_nth(1) [OF assms] by simp_all
  from run_scenarios_nth(2) [OF assms i(1)] benchmark_scenario_returns [of find_symbol_tool fs workspace_path "entries ! i"]
  have "scenario (results ! i) = name (entries ! i)"
    by auto
  with i show "map scenario results ! i = map name entries ! i"
    by simp
qed

subsection \<open>Comparison records\<close>

text \<open>
  C3. The benchmark runs the loop on the scenario list of the source. Every run of the loop,
  on any list of scenarios, returns one record per scenario, in order, and for every
  record the two usages are the LSP and the Non-LSP measurement of that scenario,
  \<open>token_savings\<close> is the Non-LSP total minus the LSP total exactly,
  \<open>efficiency_improvement\<close> is the savings over \<open>max total 1\<close> of the Non-LSP run times 100,
  and \<open>context_reduction\<close> is the same formula on the input tokens alone.
\<close>

theorem comparison_record_formulas:
  "run_benchmark_scenarios find_symbol_tool fs workspace_path
     = run_scenarios find_symbol_tool fs workspace_path scenarios
   \<and> (\<exists>results. run_scenarios find_symbol_tool fs workspace_path entries = Inr results
     \<and> map scenario results = map name entries
     \<and> (\<forall>r\<in>set results.
           operation (lsp_usage r) = scenario r \<and> usage_method (lsp_usage r) = ''LSP''
         \<and> operation (non_lsp_usage r) = scenario r \<and> usage_method (non_lsp_usage r) = ''Non-LSP''
         \<and> token_savings r = total_tokens (non_lsp_usage r) - total_tokens (lsp_usage r)
         \<and> efficiency_improvement r =
             of_int (token_savings r) / of_int (max (total_tokens (non_lsp_usage r)) 1) * 100
         \<and> context_reduction r =
             of_int (input_tokens (non_lsp_usage r) - input_tokens (lsp_usage r))
               / of_int (max (input_tokens (non_lsp_usage r)) 1) * 100))"
proof (rule conjI)
  show "run_benchmark_scenarios find_symbol_tool fs workspace_path
     = run_scenarios find_symbol_tool fs workspace_path scenarios"
    by (simp add: run_benchmark_scenarios_def)
next
  obtain results where run: "run_scenarios find_symbol_tool fs workspace_path entries = Inr results"
    using run_scenarios_returns by blast
  have "operation (lsp_usage r) = scenario r \<and> usage_method (lsp_usage r) = ''LSP''
         \<and> operation (non_lsp_usage r) = scenario r \<and> usage_method (non_lsp_usage r) = ''Non-LSP''
         \<and> token_savings r = total_tokens (non_lsp_usage r) - total_tokens (lsp_usage r)
         \<and> efficiency_improvement r =
             of_int (token_savings r) / of_int (max (total_tokens (non_lsp_usage r)) 1) * 100
         \<and> context_reduction r =
             of_int (input_tokens (non_lsp_usage r) - input_tokens (lsp_usage r))
               / of_int (max (input_tokens (non_lsp_usage r)) 1) * 100"
    if "r \<in> set results" for r
  proof -
    from run_scenarios_member [OF run that] obtain entry where
      entry: "benchmark_scenario find_symbol_tool fs workspace_path entry = Inr r"
      by blast
    from benchmark_scenario_returns [of find_symbol_tool fs workspace_path entry] entry
    have r: "scenario r = name entry"
      "benchmark_lsp_operation (name entry) ''{}'' (find_symbol_tool (lsp_name_path entry))
         = Inr (lsp_usage r)"
      "benchmark_non_lsp_operation fs workspace_path (name entry) (non_lsp_files entry)
         = Inr (non_lsp_usage r)"
      "token_savings r = total_tokens (non_lsp_usage r) - total_tokens (lsp_usage r)"
      "efficiency_improvement r =
         of_int (token_savings r) / of_int (max (total_tokens (non_lsp_usage r)) 1) * 100"
      "context_reduction r =
         of_int (input_tokens (non_lsp_usage r) - input_tokens (lsp_usage r))
           / of_int (max (input_tokens (non_lsp_usage r)) 1) * 100"
      by auto
    from lsp_usage_fields(1,2) [OF r(2)] non_lsp_usage_fields(1,2) [OF r(3)] r(1,4,5,6)
    show ?thesis
      by simp
  qed
  with run run_scenarios_names [OF run]
  show "\<exists>results. run_scenarios find_symbol_tool fs workspace_path entries = Inr results
     \<and> map scenario results = map name entries
     \<and> (\<forall>r\<in>set results.
           operation (lsp_usage r) = scenario r \<and> usage_method (lsp_usage r) = ''LSP''
         \<and> operation (non_lsp_usage r) = scenario r \<and> usage_method (non_lsp_usage r) = ''Non-LSP''
         \<and> token_savings r = total_tokens (non_lsp_usage r) - total_tokens (lsp_usage r)
         \<and> efficiency_improvement r =
             of_int (token_savings r) / of_int (max (total_tokens (non_lsp_usage r)) 1) * 100
         \<and> context_reduction r =
             of_int (input_tokens (non_lsp_usage r) - input_tokens (lsp_usage r))
               / of_int (max (input_tokens (non_lsp_usage r)) 1) * 100)"
    by blast
qed

theorem comparison_record_formulas_witness:
  "run_scenarios (\<lambda>_. Returned ''[]'') Map.empty ''ws''
       [\<lparr>name = ''Find x'', lsp_name_path = ''x'', non_lsp_files = [''main.tf'']\<rparr>]
     = Inr [\<lparr>scenario = ''Find x'',
              lsp_usage =
                \<lparr>operation = ''Find x'', usage_method = ''LSP'', input_tokens = 14,
                  output_tokens = 1, total_tokens = 15, content_length = 2,
                  efficiency_ratio = 15 / 2, success = True\<rparr>,
              non_lsp_usage =
                \<lparr>operation = ''Find x'', usage_method = ''Non-LSP'', input_tokens = 18,
                  output_tokens = 11, total_tokens = 29, content_length = 44,
                  efficiency_ratio = 29 / 44, success = True\<rparr>,
              token_savings = 29 - 15,
              efficiency_improvement = of_int (29 - 15) / of_int (max 29 1) * 100,
              context_reduction = of_int (18 - 14) / of_int (max 18 1) * 100\<rparr>]"
proof -
  let ?entry = "\<lparr>name = ''Find x'', lsp_name_path = ''x'', non_lsp_files = [''main.tf'']\<rparr>"
  have in_lsp: "estimate_tokens
      (Some (''Task: Find x'' @ nl @ ''Using LSP semantic search'' @ nl @ ''Parameters: {}'')) = 14"
    by (simp add: estimate_tokens_closed strip_def lstrip_def rstrip_def is_space_def
        special_chars_class_def)
  have out_lsp: "estimate_tokens (Some ''[]'') = 1"
    by (simp add: estimate_tokens_closed strip_def lstrip_def rstrip_def is_space_def
        special_chars_class_def)
  have strl: "str_list [''main.tf''] = [CHR ''['', CHR 0x27] @ ''main.tf'' @ [CHR 0x27, CHR '']'']"
    by (simp add: str_list_def py_repr_def repr_char_def is_printable_def Let_def)
  have in_non: "estimate_tokens
      (Some (''Task: Find x'' @ nl @ ''Reading entire files for context'' @ nl @ ''Files: ''
             @ str_list [''main.tf''] @ nl @ nl)) = 18"
    unfolding strl
    by (simp add: estimate_tokens_closed strip_def lstrip_def rstrip_def is_space_def
        special_chars_class_def)
  have out_non: "estimate_tokens (Some ''Found content in 1 files, total 0 characters'') = 11"
    by (simp add: estimate_tokens_closed strip_def lstrip_def rstrip_def is_space_def
        special_chars_class_def)
  have lsp: "benchmark_lsp_operation ''Find x'' ''{}'' (Returned ''[]'')
      = Inr \<lparr>operation = ''Find x'', usage_method = ''LSP'', input_tokens = 14,
                  output_tokens = 1, total_tokens = 15, content_length = 2,
                  efficiency_ratio = 15 / 2, success = True\<rparr>"
    using in_lsp out_lsp by (simp add: benchmark_lsp_operation_returns lsp_attempt_def)
  have non: "benchmark_non_lsp_operation Map.empty ''ws'' ''Find x'' [''main.tf'']
      = Inr \<lparr>operation = ''Find x'', usage_method = ''Non-LSP'', input_tokens = 18,
                  output_tokens = 11, total_tokens = 29, content_length = 44,
                  efficiency_ratio = 29 / 44, success = True\<rparr>"
    using in_non out_non
    by (simp add: benchmark_non_lsp_operation_returns non_lsp_attempt_def digit_char_def)
  have "\<exists>results. run_scenarios (\<lambda>_. Returned ''[]'') Map.empty ''ws'' [?entry] = Inr results
     \<and> map scenario results = map name [?entry]
     \<and> (\<forall>r\<in>set results.
           operation (lsp_usage r) = scenario r \<and> usage_method (lsp_usage r) = ''LSP''
         \<and> operation (non_lsp_usage r) = scenario r \<and> usage_method (non_lsp_usage r) = ''Non-LSP''
         \<and> token_savings r = total_tokens (non_lsp_usage r) - total_tokens (lsp_usage r)
         \<and> efficiency_improvement r =
             of_int (token_savings r) / of_int (max (total_tokens (non_lsp_usage r)) 1) * 100
         \<and> context_reduction r =
             of_int (input_tokens (non_lsp_usage r) - input_tokens (lsp_usage r))
               / of_int (max (input_tokens (non_lsp_usage r)) 1) * 100)"
    by (rule comparison_record_formulas [THEN conjunct2])
  then obtain results where run: "run_scenarios (\<lambda>_. Returned ''[]'') Map.empty ''ws'' [?entry] = Inr results"
    and names: "map scenario results = map name [?entry]"
    and all: "\<forall>r\<in>set results.
           operation (lsp_usage r) = scenario r \<and> usage_method (lsp_usage r) = ''LSP''
         \<and> operation (non_lsp_usage r) = scenario r \<and> usage_method (non_lsp_usage r) = ''Non-LSP''
         \<and> token_savings r = total_tokens (non_lsp_usage r) - total_tokens (lsp_usage r)
         \<and> efficiency_improvement r =
             of_int (token_savings r) / of_int (max (total_tokens (non_lsp_usage r)) 1) * 100
         \<and> context_reduction r =
             of_int (input_tokens (non_lsp_usage r) - input_tokens (lsp_usage r))
               / of_int (max (input_tokens (non_lsp_usage r)) 1) * 100"
    by (elim exE conjE)
  from names have "length results = 1"
    using map_eq_imp_length_eq by fastforce
  then obtain r where res: "results = [r]"
    by (cases results) simp_all
  from names res have sc: "scenario r = ''Find x''"
    by simp
  from all res have f: "token_savings r = total_tokens (non_lsp_usage r) - total_tokens (lsp_usage r)"
      "efficiency_improvement r =
         of_int (token_savings r) / of_int (max (total_tokens (non_lsp_usage r)) 1) * 100"
      "context_reduction r =
         of_int (input_tokens (non_lsp_usage r) - input_tokens (lsp_usage r))
           / of_int (max (input_tokens (non_lsp_usage r)) 1) * 100"
    by simp_all
  from run_scenarios_nth(2) [OF run, of 0] res
  have bs: "benchmark_scenario (\<lambda>_. Returned ''[]'') Map.empty ''ws'' ?entry = Inr r"
    by simp
  from benchmark_scenario_returns [of "\<lambda>_. Returned ''[]''" Map.empty "''ws''" ?entry]
  obtain r' where r': "benchmark_scenario (\<lambda>_. Returned ''[]'') Map.empty ''ws'' ?entry = Inr r'"
    and l': "benchmark_lsp_operation (name ?entry) ''{}'' ((\<lambda>_. Returned ''[]'') (lsp_name_path ?entry))
         = Inr (lsp_usage r')"
    and n': "benchmark_non_lsp_operation Map.empty ''ws'' (name ?entry) (non_lsp_files ?entry)
         = Inr (non_lsp_usage r')"
    by (elim exE conjE)
  from r' bs have "r' = r"
    by simp
  with l' n' lsp non
  have u: "lsp_usage r = \<lparr>operation = ''Find x'', usage_method = ''LSP'', input_tokens = 14,
                  output_tokens = 1, total_tokens = 15, content_length = 2,
                  efficiency_ratio = 15 / 2, success = True\<rparr>"
    "non_lsp_usage r = \<lparr>operation = ''Find x'', usage_method = ''Non-LSP'', input_tokens = 18,
                  output_tokens = 11, total_tokens = 29, content_length = 44,
                  efficiency_ratio = 29 / 44, success = True\<rparr>"
    by simp_all
  have "r = \<lparr>scenario = scenario r, lsp_usage = lsp_usage r, non_lsp_usage = non_lsp_usage r,
      token_savings = token_savings r, efficiency_improvement = efficiency_improvement r,
      context_reduction = context_reduction r\<rparr>"
    by simp
  also have "\<dots> = \<lparr>scenario = ''Find x'',
              lsp_usage =
                \<lparr>operation = ''Find x'', usage_method = ''LSP'', input_tokens = 14,
                  output_tokens = 1, total_tokens = 15, content_length = 2,
                  efficiency_ratio = 15 / 2, success = True\<rparr>,
              non_lsp_usage =
                \<lparr>operation = ''Find x'', usage_method = ''Non-LSP'', input_tokens = 18,
                  output_tokens = 11, total_tokens = 29, content_length = 44,
                  efficiency_ratio = 29 / 44, success = True\<rparr>,
              token_savings = 29 - 15,
              efficiency_improvement = of_int (29 - 15) / of_int (max 29 1) * 100,
              context_reduction = of_int (18 - 14) / of_int (max 18 1) * 100\<rparr>"
    unfolding f sc unfolding u by simp
  finally show ?thesis
    using run res by simp
qed

subsection \<open>Token usage records\<close>

text \<open>
  C10. Each mode returns a usage record, whose input tokens are the estimate of the
  operation's input context, whose output tokens are the estimate of its output payload,
  and whose total is the sum of the two; the same holds of both usages of every record of
  a run.
\<close>

theorem token_usage_total:
  "(\<exists>usage. benchmark_lsp_operation operation_name kwargs outcome = Inr usage
      \<and> input_tokens usage =
          estimate_tokens (Some (snd (snd (lsp_attempt operation_name kwargs outcome))))
      \<and> output_tokens usage =
          estimate_tokens (Some (fst (lsp_attempt operation_name kwargs outcome)))
      \<and> total_tokens usage = input_tokens usage + output_tokens usage)
   \<and> (\<exists>usage. benchmark_non_lsp_operation fs workspace_path operation_name files_to_read = Inr usage
      \<and> input_tokens usage =
          estimate_tokens
            (Some (snd (snd (non_lsp_attempt fs workspace_path operation_name files_to_read))))
      \<and> output_tokens usage =
          estimate_tokens (Some (fst (non_lsp_attempt fs workspace_path operation_name files_to_read)))
      \<and> total_tokens usage = input_tokens usage + output_tokens usage)
   \<and> (\<exists>results. run_scenarios find_symbol_tool fs workspace_path entries = Inr results
      \<and> (\<forall>r\<in>set results.
            total_tokens (lsp_usage r) = input_tokens (lsp_usage r) + output_tokens (lsp_usage r)
          \<and> total_tokens (non_lsp_usage r)
              = input_tokens (non_lsp_usage r) + output_tokens (non_lsp_usage r)))"
proof (intro conjI)
  obtain usage where u: "benchmark_lsp_operation operation_name kwargs outcome = Inr usage"
    using benchmark_lsp_operation_total by blast
  with lsp_usage_fields(3,4,5) [OF u]
  show "\<exists>usage. benchmark_lsp_operation operation_name kwargs outcome = Inr usage
      \<and> input_tokens usage =
          estimate_tokens (Some (snd (snd (lsp_attempt operation_name kwargs outcome))))
      \<and> output_tokens usage =
          estimate_tokens (Some (fst (lsp_attempt operation_name kwargs outcome)))
      \<and> total_tokens usage = input_tokens usage + output_tokens usage"
    by blast
next
  obtain usage where u:
    "benchmark_non_lsp_operation fs workspace_path operation_name files_to_read = Inr usage"
    using benchmark_non_lsp_operation_total by blast
  with non_lsp_usage_fields(3,4,5) [OF u]
  show "\<exists>usage. benchmark_non_lsp_operation fs workspace_path operation_name files_to_read = Inr usage
      \<and> input_tokens usage =
          estimate_tokens
            (Some (snd (snd (non_lsp_attempt fs workspace_path operation_name files_to_read))))
      \<and> output_tokens usage =
          estimate_tokens (Some (fst (non_lsp_attempt fs workspace_path operation_name files_to_read)))
      \<and> total_tokens usage = input_tokens usage + output_tokens usage"
    by blast
next
  obtain results where run: "run_scenarios find_symbol_tool fs workspace_path entries = Inr results"
    using run_scenarios_returns by blast
  have "total_tokens (lsp_usage r) = input_tokens (lsp_usage r) + output_tokens (lsp_usage r)
          \<and> total_tokens (non_lsp_usage r)
              = input_tokens (non_lsp_usage r) + output_tokens (non_lsp_usage r)"
    if "r \<in> set results" for r
  proof -
    from run_scenarios_member [OF run that] obtain entry where
      entry: "benchmark_scenario find_symbol_tool fs workspace_path entry = Inr r"
      by blast
    from benchmark_scenario_returns [of find_symbol_tool fs workspace_path entry] entry
    have r: "benchmark_lsp_operation (name entry) ''{}'' (find_symbol_tool (lsp_name_path entry))
         = Inr (lsp_usage r)"
      "benchmark_non_lsp_operation fs workspace_path (name entry) (non_lsp_files entry)
         = Inr (non_lsp_usage r)"
      by auto
    from lsp_usage_fields(5) [OF r(1)] non_lsp_usage_fields(5) [OF r(2)] show ?thesis
      by simp
  qed
  with run show "\<exists>results. run_scenarios find_symbol_tool fs workspace_path entries = Inr results
      \<and> (\<forall>r\<in>set results.
            total_tokens (lsp_usage r) = input_tokens (lsp_usage r) + output_tokens (lsp_usage r)
          \<and> total_tokens (non_lsp_usage r)
              = input_tokens (non_lsp_usage r) + output_tokens (non_lsp_usage r))"
    by blast
qed

theorem token_usage_total_witness:
  "benchmark_lsp_operation ''Find x'' ''{}'' (Raised ''boom'')
     = Inr \<lparr>operation = ''Find x'', usage_method = ''LSP'',
            input_tokens = estimate_tokens (Some (''Task: Find x'' @ nl @ ''Failed operation'')),
            output_tokens = estimate_tokens (Some ''Error: boom''),
            total_tokens = 7 + 3, content_length = 11, efficiency_ratio = 10 / 11,
            success = False\<rparr>
   \<and> estimate_tokens (Some (''Task: Find x'' @ nl @ ''Failed operation'')) = 7
   \<and> estimate_tokens (Some ''Error: boom'') = 3"
proof -
  have i: "estimate_tokens (Some (''Task: Find x'' @ nl @ ''Failed operation'')) = 7"
    by (simp add: estimate_tokens_closed strip_def lstrip_def rstrip_def is_space_def
        special_chars_class_def)
  have out: "estimate_tokens (Some ''Error: boom'') = 3"
    by (simp add: estimate_tokens_closed strip_def lstrip_def rstrip_def is_space_def
        special_chars_class_def)
  from token_usage_total [of "''Find x''" "''{}''" "Raised ''boom''" Map.empty "''ws''" "[]"
      "\<lambda>_. Raised ''boom''" "[]"]
  obtain usage where u: "benchmark_lsp_operation ''Find x'' ''{}'' (Raised ''boom'') = Inr usage"
    and f: "input_tokens usage =
          estimate_tokens (Some (snd (snd (lsp_attempt ''Find x'' ''{}'' (Raised ''boom'')))))"
      "output_tokens usage =
          estimate_tokens (Some (fst (lsp_attempt ''Find x'' ''{}'' (Raised ''boom''))))"
      "total_tokens usage = input_tokens usage + output_tokens usage"
    by blast
  from f i out have t: "input_tokens usage = 7" "output_tokens usage = 3" "total_tokens usage = 7 + 3"
    by (simp_all add: lsp_attempt_def)
  from u have r: "operation usage = ''Find x''" "usage_method usage = ''LSP''"
    "content_length usage = 11" "success usage = False" "efficiency_ratio usage = 10 / 11"
    using i out by (auto simp: benchmark_lsp_operation_returns lsp_attempt_def)
  have "usage = \<lparr>operation = operation usage, usage_method = usage_method usage,
      input_tokens = input_tokens usage, output_tokens = output_tokens usage,
      total_tokens = total_tokens usage, content_length = content_length usage,
      efficiency_ratio = efficiency_ratio usage, success = success usage\<rparr>"
    by simp
  with t r i out have "usage = \<lparr>operation = ''Find x'', usage_method = ''LSP'',
            input_tokens = estimate_tokens (Some (''Task: Find x'' @ nl @ ''Failed operation'')),
            output_tokens = estimate_tokens (Some ''Error: boom''),
            total_tokens = 7 + 3, content_length = 11, efficiency_ratio = 10 / 11,
            success = False\<rparr>"
    by simp
  with u i out show ?thesis
    by simp
qed

section \<open>Failures of the symbol search\<close>

subsection \<open>The report lists the records\<close>

lemma generate_report_returns:
  assumes "results \<noteq> []"
  shows "\<exists>rep. generate_report results = Inr rep \<and> report_scenarios rep = results
    \<and> total_scenarios rep = length results"
proof -
  from assms obtain r rs where results: "results = r # rs"
    by (cases results) simp_all
  have len: "(of_nat (length results) :: rat) \<noteq> 0"
    using assms by simp
  have cost: "max (x :: rat) (1 / 100) \<noteq> 0" for x
    by (simp add: max_def)
  have floor1: "(of_int (max n 1) :: rat) \<noteq> 0" for n :: int
    by (simp add: max_def)
  show ?thesis
    unfolding generate_report_def Let_def py_truediv_def
    by (simp only: len cost floor1 if_False sum.case) (simp add: results)
qed

subsection \<open>The loop of the error detection test\<close>

lemma detection_loop_eq:
  "detection_loop find_symbol_tool json_len errors (detected_errs, attempts) =
     (detected_errs
        @ filter (\<lambda>error. detected (detection_attempt_for find_symbol_tool json_len error)) errors,
      attempts @ map (detection_attempt_for find_symbol_tool json_len) errors)"
  by (induction errors arbitrary: detected_errs attempts)
    (simp_all add: detection_round_def Let_def)

lemma lsp_error_detection_returns:
  assumes "errors \<noteq> []"
  shows "lsp_error_detection errors find_symbol_tool json_len =
     Inr \<lparr>detection_rate =
            of_nat (length (filter
              (\<lambda>error. detected (detection_attempt_for find_symbol_tool json_len error)) errors))
              / of_nat (length errors) * 100,
          detected_errors = length (filter
              (\<lambda>error. detected (detection_attempt_for find_symbol_tool json_len error)) errors),
          total_errors = length errors,
          errors_found = map description (filter
              (\<lambda>error. detected (detection_attempt_for find_symbol_tool json_len error)) errors),
          detection_attempts = map (detection_attempt_for find_symbol_tool json_len) errors\<rparr>"
  using assms by (simp add: lsp_error_detection_def detection_loop_eq py_truediv_def)

lemma known_errors_nonempty: "known_errors \<noteq> []" and length_known_errors: "length known_errors = 7"
  by (simp_all add: known_errors_def)

lemma detection_attempt_raised:
  "find_symbol_tool (pattern error) = Raised e \<Longrightarrow>
     detection_attempt_for find_symbol_tool json_len error =
       \<lparr>attempt_error = error, detected = False, symbols_found = None, error_message = Some e\<rparr>"
  by (simp add: detection_attempt_for_def)

lemma attempt_error_for [simp]:
  "attempt_error (detection_attempt_for find_symbol_tool json_len error) = error"
  by (simp add: detection_attempt_for_def split: call_outcome.split sum.split)

text \<open>
  C4 (as amended). An exception of the symbol search is caught and never ends the batch.
  In the token benchmark the record of the failed operation has the success flag false
  and keeps the length and the token estimate of the payload \<open>Error: \<close> followed by the
  message, not the message; the run returns one record per scenario, in order, the failed
  ones with the flag false, and the report lists all of them. In the error detection test
  every known error gets an attempt, in order, and the attempt of a failed search has
  \<open>detected\<close> false and the message of the exception, as it is, under \<open>error_message\<close>.
\<close>

theorem query_failure_contained:
  "(\<exists>usage. benchmark_lsp_operation operation_name kwargs (Raised e) = Inr usage
      \<and> \<not> success usage \<and> operation usage = operation_name
      \<and> content_length usage = length (''Error: '' @ e)
      \<and> output_tokens usage = estimate_tokens (Some (''Error: '' @ e)))
   \<and> (\<exists>results. run_scenarios find_symbol_tool fs workspace_path entries = Inr results
      \<and> map scenario results = map name entries
      \<and> (\<forall>i<length entries.
            (\<exists>msg. find_symbol_tool (lsp_name_path (entries ! i)) = Raised msg)
            \<longrightarrow> \<not> success (lsp_usage (results ! i)))
      \<and> (entries \<noteq> [] \<longrightarrow>
            (\<exists>rep. generate_report results = Inr rep \<and> report_scenarios rep = results)))
   \<and> (\<exists>res. test_lsp_error_detection find_symbol_tool json_len = Inr res
      \<and> map attempt_error (detection_attempts res) = known_errors
      \<and> (\<forall>i<length known_errors. \<forall>msg.
            find_symbol_tool (pattern (known_errors ! i)) = Raised msg
            \<longrightarrow> detection_attempts res ! i =
                  \<lparr>attempt_error = known_errors ! i, detected = False,
                    symbols_found = None, error_message = Some msg\<rparr>))"
proof (intro conjI)
  obtain usage where u: "benchmark_lsp_operation operation_name kwargs (Raised e) = Inr usage"
    using benchmark_lsp_operation_total by blast
  from lsp_usage_fields(1,4,6,7) [OF u]
  have "\<not> success usage \<and> operation usage = operation_name
      \<and> content_length usage = length (''Error: '' @ e)
      \<and> output_tokens usage = estimate_tokens (Some (''Error: '' @ e))"
    by (simp add: lsp_attempt_def)
  with u show "\<exists>usage. benchmark_lsp_operation operation_name kwargs (Raised e) = Inr usage
      \<and> \<not> success usage \<and> operation usage = operation_name
      \<and> content_length usage = length (''Error: '' @ e)
      \<and> output_tokens usage = estimate_tokens (Some (''Error: '' @ e))"
    by blast
next
  obtain results where run: "run_scenarios find_symbol_tool fs workspace_path entries = Inr results"
    using run_scenarios_returns by blast
  have failed: "\<not> success (lsp_usage (results ! i))"
    if i: "i < length entries"
      and raised: "\<exists>msg. find_symbol_tool (lsp_name_path (entries ! i)) = Raised msg" for i
  proof -
    from raised obtain msg where msg: "find_symbol_tool (lsp_name_path (entries ! i)) = Raised msg"
      by blast
    from benchmark_scenario_returns [of find_symbol_tool fs workspace_path "entries ! i"]
      run_scenarios_nth(2) [OF run i]
    have "benchmark_lsp_operation (name (entries ! i)) ''{}''
        (find_symbol_tool (lsp_name_path (entries ! i))) = Inr (lsp_usage (results ! i))"
      by auto
    from lsp_usage_fields(7) [OF this] msg show ?thesis
      by (simp add: lsp_attempt_def)
  qed
  have rep: "\<exists>rep. generate_report results = Inr rep \<and> report_scenarios rep = results"
    if "entries \<noteq> []"
  proof -
    from that run_scenarios_nth(1) [OF run] have "results \<noteq> []"
      by auto
    from generate_report_returns [OF this] show ?thesis
      by blast
  qed
  from run run_scenarios_names [OF run] failed rep
  show "\<exists>results. run_scenarios find_symbol_tool fs workspace_path entries = Inr results
      \<and> map scenario results = map name entries
      \<and> (\<forall>i<length entries.
            (\<exists>msg. find_symbol_tool (lsp_name_path (entries ! i)) = Raised msg)
            \<longrightarrow> \<not> success (lsp_usage (results ! i)))
      \<and> (entries \<noteq> [] \<longrightarrow>
            (\<exists>rep. generate_report results = Inr rep \<and> report_scenarios rep = results))"
    by blast
next
  let ?res = "\<lparr>detection_rate =
            of_nat (length (filter
              (\<lambda>error. detected (detection_attempt_for find_symbol_tool json_len error)) known_errors))
              / of_nat (length known_errors) * 100,
          detected_errors = length (filter
              (\<lambda>error. detected (detection_attempt_for find_symbol_tool json_len error)) known_errors),
          total_errors = length known_errors,
          errors_found = map description (filter
              (\<lambda>error. detected (detection_attempt_for find_symbol_tool json_len error)) known_errors),
          detection_attempts = map (detection_attempt_for find_symbol_tool json_len) known_errors\<rparr>"
  have res: "test_lsp_error_detection find_symbol_tool json_len = Inr ?res"
    unfolding test_lsp_error_detection_def
    by (rule lsp_error_detection_returns [OF known_errors_nonempty])
  have order: "map attempt_error (detection_attempts ?res) = known_errors"
    by (simp add: map_idI)
  have raised: "detection_attempts ?res ! i =
      \<lparr>attempt_error = known_errors ! i, detected = False,
        symbols_found = None, error_message = Some msg\<rparr>"
    if "i < length known_errors" "find_symbol_tool (pattern (known_errors ! i)) = Raised msg"
    for i msg
    using that by (simp add: detection_attempt_raised)
  from res order raised
  show "\<exists>res. test_lsp_error_detection find_symbol_tool json_len = Inr res
      \<and> map attempt_error (detection_attempts res) = known_errors
      \<and> (\<forall>i<length known_errors. \<forall>msg.
            find_symbol_tool (pattern (known_errors ! i)) = Raised msg
            \<longrightarrow> detection_attempts res ! i =
                  \<lparr>attempt_error = known_errors ! i, detected = False,
                    symbols_found = None, error_message = Some msg\<rparr>)"
    by blast
qed

theorem query_failure_contained_witness:
  "map_sum id success (benchmark_lsp_operation ''Find x'' ''{}'' (Raised ''boom'')) = Inr False
   \<and> map_sum id content_length (benchmark_lsp_operation ''Find x'' ''{}'' (Raised ''boom'')) = Inr 11
   \<and> map_sum id (map (\<lambda>r. success (lsp_usage r)))
        (run_scenarios (\<lambda>_. Raised ''boom'') Map.empty ''ws''
          [\<lparr>name = ''Find x'', lsp_name_path = ''x'', non_lsp_files = [''main.tf'']\<rparr>])
       = Inr [False]
   \<and> map_sum id (\<lambda>res. detection_attempts res ! 0)
        (test_lsp_error_detection (\<lambda>_. Raised ''boom'') (\<lambda>_. Inr 0))
       = Inr \<lparr>attempt_error = known_errors ! 0, detected = False,
              symbols_found = None, error_message = Some ''boom''\<rparr>"
proof -
  let ?entry = "\<lparr>name = ''Find x'', lsp_name_path = ''x'', non_lsp_files = [''main.tf'']\<rparr>"
  let ?tool = "\<lambda>_ :: string. Raised ''boom''"
  note inst = query_failure_contained [of "''Find x''" "''{}''" "''boom''" ?tool Map.empty "''ws''"
      "[?entry]" "\<lambda>_. Inr 0"]
  from inst obtain usage where u: "benchmark_lsp_operation ''Find x'' ''{}'' (Raised ''boom'') = Inr usage"
    and uf: "\<not> success usage" "content_length usage = length (''Error: '' @ ''boom'')"
    by (elim conjE exE)
  from inst obtain results where run: "run_scenarios ?tool Map.empty ''ws'' [?entry] = Inr results"
    and names: "map scenario results = map name [?entry]"
    and failed: "\<forall>i<length [?entry].
            (\<exists>msg. ?tool (lsp_name_path ([?entry] ! i)) = Raised msg)
            \<longrightarrow> \<not> success (lsp_usage (results ! i))"
    by (elim conjE exE)
  from inst obtain res where res: "test_lsp_error_detection ?tool (\<lambda>_. Inr 0) = Inr res"
    and att: "\<forall>i<length known_errors. \<forall>msg.
            ?tool (pattern (known_errors ! i)) = Raised msg
            \<longrightarrow> detection_attempts res ! i =
                  \<lparr>attempt_error = known_errors ! i, detected = False,
                    symbols_found = None, error_message = Some msg\<rparr>"
    by (elim conjE exE)
  from names have "length results = 1"
    using map_eq_imp_length_eq by fastforce
  then obtain r where r: "results = [r]"
    by (cases results) simp_all
  from failed have "\<not> success (lsp_usage (results ! 0))"
    by simp
  with r have s: "map (\<lambda>r. success (lsp_usage r)) results = [False]"
    by simp
  have "0 < length known_errors"
    by (simp add: length_known_errors)
  with att have a: "detection_attempts res ! 0 =
      \<lparr>attempt_error = known_errors ! 0, detected = False,
        symbols_found = None, error_message = Some ''boom''\<rparr>"
    by blast
  from u uf run s res a show ?thesis
    by simp
qed

text \<open>
  C4 as stated fails: the record of a failed operation does not retain the error message.
  Two different messages of the same length and token estimate give the same record.
\<close>

theorem error_message_not_retained_counterexample:
  "''timeout'' \<noteq> ''refused''
   \<and> benchmark_lsp_operation ''Find all VPC resources'' ''{}'' (Raised ''timeout'')
     = benchmark_lsp_operation ''Find all VPC resources'' ''{}'' (Raised ''refused'')"
proof -
  have "estimate_tokens (Some ''Error: timeout'') = 3" "estimate_tokens (Some ''Error: refused'') = 3"
    by (simp_all add: estimate_tokens_closed strip_def lstrip_def rstrip_def is_space_def
        special_chars_class_def)
  then show ?thesis
    by (simp add: benchmark_lsp_operation_returns lsp_attempt_def)
qed

section \<open>Ratios and their denominators\<close>

lemma length_error_patterns: "length error_patterns = 5"
  by (simp add: error_patterns_def)

lemma test_traditional_error_detection_returns:
  "workspace \<noteq> [] \<Longrightarrow>
   test_traditional_error_detection fs workspace listing =
     Inr \<lparr>traditional_detection_rate =
            of_nat (length (remdups (scan_files fs workspace listing))) / 5 * 100,
          patterns_detected = length (remdups (scan_files fs workspace listing)),
          total_patterns = 5,
          detected_patterns = set (scan_files fs workspace listing)\<rparr>"
  by (simp add: test_traditional_error_detection_def Let_def py_truediv_def length_error_patterns)

lemma compare_results_returns:
  "compare_results lsp traditional =
     Inr \<lparr>lsp_part = lsp, traditional_part = traditional,
          improvement_factor = detection_rate lsp / max (traditional_detection_rate traditional) 1,
          target_met = (4 \<le> detection_rate lsp / max (traditional_detection_rate traditional) 1)\<rparr>"
  by (simp add: compare_results_def py_truediv_def max_def)

lemma lsp_efficiency_ratio:
  "benchmark_lsp_operation operation_name kwargs outcome = Inr usage \<Longrightarrow>
     efficiency_ratio usage = of_int (total_tokens usage) / of_nat (max (content_length usage) 1)"
  by (cases "lsp_attempt operation_name kwargs outcome")
    (auto simp: benchmark_lsp_operation_returns)

lemma non_lsp_efficiency_ratio:
  "benchmark_non_lsp_operation fs workspace_path operation_name files_to_read = Inr usage \<Longrightarrow>
     efficiency_ratio usage = of_int (total_tokens usage) / of_nat (max (content_length usage) 1)"
  by (cases "non_lsp_attempt fs workspace_path operation_name files_to_read")
    (auto simp: benchmark_non_lsp_operation_returns)

lemma generate_report_ratios:
  assumes "results \<noteq> []"
  shows "\<exists>rep. generate_report results = Inr rep
    \<and> overall_efficiency_gain rep =
        of_int (total_token_savings rep)
          / of_int (max (sum_list (map (\<lambda>r. total_tokens (non_lsp_usage r)) results)) 1) * 100
    \<and> average_efficiency_improvement rep =
        sum_list (map efficiency_improvement results) / of_nat (length results)
    \<and> average_context_reduction rep =
        sum_list (map context_reduction results) / of_nat (length results)
    \<and> lsp_success_rate rep =
        of_nat (length (filter (\<lambda>r. success (lsp_usage r)) results)) / of_nat (length results) * 100
    \<and> non_lsp_success_rate rep =
        of_nat (length (filter (\<lambda>r. success (non_lsp_usage r)) results))
          / of_nat (length results) * 100
    \<and> cost_efficiency rep =
        cost_savings rep
          / max (of_int (sum_list (map (\<lambda>r. input_tokens (non_lsp_usage r)) results)) / 1000
                   * (3 / 100)
                 + of_int (sum_list (map (\<lambda>r. output_tokens (non_lsp_usage r)) results)) / 1000
                   * (6 / 100))
                (1 / 100) * 100"
proof -
  from assms obtain r rs where results: "results = r # rs"
    by (cases results) simp_all
  have len: "(of_nat (length results) :: rat) \<noteq> 0"
    using assms by simp
  have cost: "max (x :: rat) (1 / 100) \<noteq> 0" for x
    by (simp add: max_def)
  have floor1: "(of_int (max n 1) :: rat) \<noteq> 0" for n :: int
    by (simp add: max_def)
  show ?thesis
    unfolding generate_report_def Let_def py_truediv_def
    by (simp only: len cost floor1 if_False sum.case) (simp add: results)
qed

text \<open>
  C5 (as amended). The ratios of a comparison record (efficiency improvement, context
  reduction, and the efficiency ratio of each usage), the overall efficiency gain of the
  report and the improvement factor use a denominator floored at 1, and the cost
  efficiency one floored at 0.01. The averages and the success rates of the report divide
  by the number of results as it is: they are defined for every non-empty list of
  results. The detection rates divide by the number of expected defects as it is; that
  number is fixed in the code and not zero (seven known errors, five text patterns), so
  both tests return, with a rate that is 0 when nothing is found.
\<close>

theorem ratios_defined:
  "(\<exists>r. benchmark_scenario find_symbol_tool fs workspace_path entry = Inr r
      \<and> efficiency_improvement r =
          of_int (token_savings r) / of_int (max (total_tokens (non_lsp_usage r)) 1) * 100
      \<and> context_reduction r =
          of_int (input_tokens (non_lsp_usage r) - input_tokens (lsp_usage r))
            / of_int (max (input_tokens (non_lsp_usage r)) 1) * 100
      \<and> efficiency_ratio (lsp_usage r) =
          of_int (total_tokens (lsp_usage r)) / of_nat (max (content_length (lsp_usage r)) 1)
      \<and> efficiency_ratio (non_lsp_usage r) =
          of_int (total_tokens (non_lsp_usage r))
            / of_nat (max (content_length (non_lsp_usage r)) 1))
   \<and> (results \<noteq> [] \<longrightarrow>
        (\<exists>rep. generate_report results = Inr rep
          \<and> overall_efficiency_gain rep =
              of_int (total_token_savings rep)
                / of_int (max (sum_list (map (\<lambda>r. total_tokens (non_lsp_usage r)) results)) 1) * 100
          \<and> average_efficiency_improvement rep =
              sum_list (map efficiency_improvement results) / of_nat (length results)
          \<and> average_context_reduction rep =
              sum_list (map context_reduction results) / of_nat (length results)
          \<and> lsp_success_rate rep =
              of_nat (length (filter (\<lambda>r. success (lsp_usage r)) results))
                / of_nat (length results) * 100
          \<and> non_lsp_success_rate rep =
              of_nat (length (filter (\<lambda>r. success (non_lsp_usage r)) results))
                / of_nat (length results) * 100
          \<and> cost_efficiency rep =
              cost_savings rep
                / max (of_int (sum_list (map (\<lambda>r. input_tokens (non_lsp_usage r)) results)) / 1000
                         * (3 / 100)
                       + of_int (sum_list (map (\<lambda>r. output_tokens (non_lsp_usage r)) results)) / 1000
                         * (6 / 100))
                      (1 / 100) * 100))
   \<and> (\<exists>combined. compare_results lsp traditional = Inr combined
         \<and> improvement_factor combined =
             detection_rate lsp / max (traditional_detection_rate traditional) 1)
   \<and> (\<exists>res. test_lsp_error_detection find_symbol_tool json_len = Inr res
         \<and> total_errors res = 7
         \<and> detection_rate res = of_nat (detected_errors res) / 7 * 100
         \<and> (detected_errors res = 0 \<longrightarrow> detection_rate res = 0))
   \<and> (workspace \<noteq> [] \<longrightarrow>
        (\<exists>res. test_traditional_error_detection fs workspace listing = Inr res
         \<and> total_patterns res = 5
         \<and> traditional_detection_rate res = of_nat (patterns_detected res) / 5 * 100
         \<and> (patterns_detected res = 0 \<longrightarrow> traditional_detection_rate res = 0)))"
proof (intro conjI impI)
  from benchmark_scenario_returns [of find_symbol_tool fs workspace_path entry]
  obtain r where r: "benchmark_scenario find_symbol_tool fs workspace_path entry = Inr r"
    and l: "benchmark_lsp_operation (name entry) ''{}'' (find_symbol_tool (lsp_name_path entry))
         = Inr (lsp_usage r)"
    and n: "benchmark_non_lsp_operation fs workspace_path (name entry) (non_lsp_files entry)
         = Inr (non_lsp_usage r)"
    and f: "efficiency_improvement r =
         of_int (token_savings r) / of_int (max (total_tokens (non_lsp_usage r)) 1) * 100"
      "context_reduction r =
         of_int (input_tokens (non_lsp_usage r) - input_tokens (lsp_usage r))
           / of_int (max (input_tokens (non_lsp_usage r)) 1) * 100"
    by (elim exE conjE)
  from r f lsp_efficiency_ratio [OF l] non_lsp_efficiency_ratio [OF n]
  show "\<exists>r. benchmark_scenario find_symbol_tool fs workspace_path entry = Inr r
      \<and> efficiency_improvement r =
          of_int (token_savings r) / of_int (max (total_tokens (non_lsp_usage r)) 1) * 100
      \<and> context_reduction r =
          of_int (input_tokens (non_lsp_usage r) - input_tokens (lsp_usage r))
            / of_int (max (input_tokens (non_lsp_usage r)) 1) * 100
      \<and> efficiency_ratio (lsp_usage r) =
          of_int (total_tokens (lsp_usage r)) / of_nat (max (content_length (lsp_usage r)) 1)
      \<and> efficiency_ratio (non_lsp_usage r) =
          of_int (total_tokens (non_lsp_usage r))
            / of_nat (max (content_length (non_lsp_usage r)) 1)"
    by blast
next
  assume "results \<noteq> []"
  then show "\<exists>rep. generate_report results = Inr rep
          \<and> overall_efficiency_gain rep =
              of_int (total_token_savings rep)
                / of_int (max (sum_list (map (\<lambda>r. total_tokens (non_lsp_usage r)) results)) 1) * 100
          \<and> average_efficiency_improvement rep =
              sum_list (map efficiency_improvement results) / of_nat (length results)
          \<and> average_context_reduction rep =
              sum_list (map context_reduction results) / of_nat (length results)
          \<and> lsp_success_rate rep =
              of_nat (length (filter (\<lambda>r. success (lsp_usage r)) results))
                / of_nat (length results) * 100
          \<and> non_lsp_success_rate rep =
              of_nat (length (filter (\<lambda>r. success (non_lsp_usage r)) results))
                / of_nat (length results) * 100
          \<and> cost_efficiency rep =
              cost_savings rep
                / max (of_int (sum_list (map (\<lambda>r. input_tokens (non_lsp_usage r)) results)) / 1000
                         * (3 / 100)
                       + of_int (sum_list (map (\<lambda>r. output_tokens (non_lsp_usage r)) results)) / 1000
                         * (6 / 100))
                      (1 / 100) * 100"
    by (rule generate_report_ratios)
next
  show "\<exists>combined. compare_results lsp traditional = Inr combined
         \<and> improvement_factor combined =
             detection_rate lsp / max (traditional_detection_rate traditional) 1"
    by (simp add: compare_results_returns)
next
  from lsp_error_detection_returns [OF known_errors_nonempty, of find_symbol_tool json_len]
  show "\<exists>res. test_lsp_error_detection find_symbol_tool json_len = Inr res
         \<and> total_errors res = 7
         \<and> detection_rate res = of_nat (detected_errors res) / 7 * 100
         \<and> (detected_errors res = 0 \<longrightarrow> detection_rate res = 0)"
    by (simp add: test_lsp_error_detection_def length_known_errors)
next
  assume "workspace \<noteq> []"
  then show "\<exists>res. test_traditional_error_detection fs workspace listing = Inr res
         \<and> total_patterns res = 5
         \<and> traditional_detection_rate res = of_nat (patterns_detected res) / 5 * 100
         \<and> (patterns_detected res = 0 \<longrightarrow> traditional_detection_rate res = 0)"
    by (simp add: test_traditional_error_detection_returns)
qed

theorem ratios_defined_witness:
  "[\<lparr>scenario = ''Find x'',
      lsp_usage =
        \<lparr>operation = ''Find x'', usage_method = ''LSP'', input_tokens = 14,
          output_tokens = 1, total_tokens = 15, content_length = 2,
          efficiency_ratio = 15 / 2, success = True\<rparr>,
      non_lsp_usage =
        \<lparr>operation = ''Find x'', usage_method = ''Non-LSP'', input_tokens = 18,
          output_tokens = 11, total_tokens = 29, content_length = 44,
          efficiency_ratio = 29 / 44, success = True\<rparr>,
      token_savings = 14, efficiency_improvement = 1400 / 29,
      context_reduction = 200 / 9\<rparr>] \<noteq> []
   \<and> map_sum id (\<lambda>rep. (average_efficiency_improvement rep, average_context_reduction rep,
          lsp_success_rate rep, non_lsp_success_rate rep))
        (generate_report
          [\<lparr>scenario = ''Find x'',
             lsp_usage =
               \<lparr>operation = ''Find x'', usage_method = ''LSP'', input_tokens = 14,
                 output_tokens = 1, total_tokens = 15, content_length = 2,
                 efficiency_ratio = 15 / 2, success = True\<rparr>,
             non_lsp_usage =
               \<lparr>operation = ''Find x'', usage_method = ''Non-LSP'', input_tokens = 18,
                 output_tokens = 11, total_tokens = 29, content_length = 44,
                 efficiency_ratio = 29 / 44, success = True\<rparr>,
             token_savings = 14, efficiency_improvement = 1400 / 29,
             context_reduction = 200 / 9\<rparr>])
       = Inr (1400 / 29, 200 / 9, 100, 100)
   \<and> map_sum id detection_rate (test_lsp_error_detection (\<lambda>_. Returned []) (\<lambda>_. Inr 0)) = Inr 0
   \<and> ''ws'' \<noteq> []
   \<and> map_sum id traditional_detection_rate (test_traditional_error_detection Map.empty ''ws'' [])
       = Inr 0"
proof -
  let ?r = "\<lparr>scenario = ''Find x'',
      lsp_usage =
        \<lparr>operation = ''Find x'', usage_method = ''LSP'', input_tokens = 14,
          output_tokens = 1, total_tokens = 15, content_length = 2,
          efficiency_ratio = 15 / 2, success = True\<rparr>,
      non_lsp_usage =
        \<lparr>operation = ''Find x'', usage_method = ''Non-LSP'', input_tokens = 18,
          output_tokens = 11, total_tokens = 29, content_length = 44,
          efficiency_ratio = 29 / 44, success = True\<rparr>,
      token_savings = 14, efficiency_improvement = 1400 / 29,
      context_reduction = 200 / 9\<rparr>"
  let ?tool = "\<lambda>_ :: string. Returned []"
  let ?json = "\<lambda>_ :: string. (Inr 0 :: string + nat)"
  have ne: "[?r] \<noteq> []" and ws: "''ws'' \<noteq> []"
    by simp_all
  note inst = ratios_defined [of ?tool Map.empty "''ws''" _ "[?r]" _ _ ?json "''ws''" "[]"]
  note p2 = inst [THEN conjunct2, THEN conjunct1, THEN mp, OF ne]
    and p4 = inst [THEN conjunct2, THEN conjunct2, THEN conjunct2, THEN conjunct1]
    and p5 = inst [THEN conjunct2, THEN conjunct2, THEN conjunct2, THEN conjunct2, THEN mp, OF ws]
  from p2 obtain rep where rep: "generate_report [?r] = Inr rep"
    and avg: "average_efficiency_improvement rep =
        sum_list (map efficiency_improvement [?r]) / of_nat (length [?r])"
      "average_context_reduction rep =
        sum_list (map context_reduction [?r]) / of_nat (length [?r])"
      "lsp_success_rate rep =
        of_nat (length (filter (\<lambda>r. success (lsp_usage r)) [?r])) / of_nat (length [?r]) * 100"
      "non_lsp_success_rate rep =
        of_nat (length (filter (\<lambda>r. success (non_lsp_usage r)) [?r])) / of_nat (length [?r]) * 100"
    by (elim exE conjE)
  from avg have r1: "(average_efficiency_improvement rep, average_context_reduction rep,
      lsp_success_rate rep, non_lsp_success_rate rep) = (1400 / 29, 200 / 9, 100, 100)"
    by simp
  from p4 obtain res2 where res2: "test_lsp_error_detection ?tool ?json = Inr res2"
    and zero2: "detected_errors res2 = 0 \<longrightarrow> detection_rate res2 = 0"
    by (elim conjE exE)
  from res2 have "detected_errors res2 = 0"
    unfolding test_lsp_error_detection_def
    by (auto simp: lsp_error_detection_returns [OF known_errors_nonempty] detection_attempt_for_def)
  with zero2 have r2: "detection_rate res2 = 0"
    by simp
  from p5 obtain res3 where res3: "test_traditional_error_detection Map.empty ''ws'' [] = Inr res3"
    and zero3: "patterns_detected res3 = 0 \<longrightarrow> traditional_detection_rate res3 = 0"
    by (elim conjE exE)
  from res3 have "patterns_detected res3 = 0"
    by (auto simp: test_traditional_error_detection_returns)
  with zero3 have r3: "traditional_detection_rate res3 = 0"
    by simp
  from ne ws rep r1 res2 r2 res3 r3 show ?thesis
    by simp
qed

text \<open>
  C5 as stated fails: not every ratio has a floor on its denominator. The averages of the
  report divide by the number of results, and on the empty list of results the report
  raises.
\<close>

theorem report_average_unfloored_counterexample:
  "generate_report [] = Inl ZeroDivisionError"
  by (simp add: generate_report_def py_truediv_def)

section \<open>The claim analysis\<close>









section \<open>Fixtures\<close>

subsection \<open>Materialisation is determined by the fixture\<close>

lemma workspace_file_eq [simp]:
  "workspace_file workspace a = workspace_file workspace b \<longleftrightarrow> a = b"
  by (simp add: workspace_file_def)

lemma tree_create_error_scenarios:
  assumes "tree workspace fs = Map.empty"
  shows "tree workspace (create_error_scenarios workspace fs) =
     [''syntax_errors.tf'' \<mapsto> Readable syntax_errors_tf,
      ''logic_errors.tf'' \<mapsto> Readable logic_errors_tf,
      ''reference_errors.tf'' \<mapsto> Readable reference_errors_tf,
      ''variables_errors.tf'' \<mapsto> Readable variables_errors_tf]"
proof (rule ext)
  fix rel
  from assms have "fs (workspace_file workspace rel) = None"
    by (simp add: tree_def fun_eq_iff)
  then show "tree workspace (create_error_scenarios workspace fs) rel =
     [''syntax_errors.tf'' \<mapsto> Readable syntax_errors_tf,
      ''logic_errors.tf'' \<mapsto> Readable logic_errors_tf,
      ''reference_errors.tf'' \<mapsto> Readable reference_errors_tf,
      ''variables_errors.tf'' \<mapsto> Readable variables_errors_tf] rel"
    by (simp add: tree_def create_error_scenarios_def write_file_def)
qed

lemma tree_create_realistic_terraform_project:
  assumes "tree workspace_path fs = Map.empty"
  shows "tree workspace_path (create_realistic_terraform_project workspace_path fs) =
     [''main.tf'' \<mapsto> Readable main_tf,
      ''variables.tf'' \<mapsto> Readable variables_tf,
      ''outputs.tf'' \<mapsto> Readable outputs_tf,
      ''user_data.sh'' \<mapsto> Readable user_data_sh]"
proof (rule ext)
  fix rel
  from assms have "fs (workspace_file workspace_path rel) = None"
    by (simp add: tree_def fun_eq_iff)
  then show "tree workspace_path (create_realistic_terraform_project workspace_path fs) rel =
     [''main.tf'' \<mapsto> Readable main_tf,
      ''variables.tf'' \<mapsto> Readable variables_tf,
      ''outputs.tf'' \<mapsto> Readable outputs_tf,
      ''user_data.sh'' \<mapsto> Readable user_data_sh] rel"
    by (simp add: tree_def create_realistic_terraform_project_def write_file_def)
qed

text \<open>
  C8. Materialising a fixture into two empty workspaces, of whatever paths and in
  whatever file systems, gives the same file tree: the same file names with the same
  contents. This holds of the error scenarios and of the benchmark project; the tree is
  the fixed one of the four files of the source.
\<close>

theorem materialize_deterministic:
  assumes "tree workspace1 fs1 = Map.empty" and "tree workspace2 fs2 = Map.empty"
  shows "tree workspace1 (create_error_scenarios workspace1 fs1)
        = tree workspace2 (create_error_scenarios workspace2 fs2)
    \<and> tree workspace1 (create_realistic_terraform_project workspace1 fs1)
        = tree workspace2 (create_realistic_terraform_project workspace2 fs2)
    \<and> tree workspace1 (create_error_scenarios workspace1 fs1) =
        [''syntax_errors.tf'' \<mapsto> Readable syntax_errors_tf,
         ''logic_errors.tf'' \<mapsto> Readable logic_errors_tf,
         ''reference_errors.tf'' \<mapsto> Readable reference_errors_tf,
         ''variables_errors.tf'' \<mapsto> Readable variables_errors_tf]
    \<and> tree workspace1 (create_realistic_terraform_project workspace1 fs1) =
        [''main.tf'' \<mapsto> Readable main_tf,
         ''variables.tf'' \<mapsto> Readable variables_tf,
         ''outputs.tf'' \<mapsto> Readable outputs_tf,
         ''user_data.sh'' \<mapsto> Readable user_data_sh]"
  by (simp only: tree_create_error_scenarios [OF assms(1)] tree_create_error_scenarios [OF assms(2)]
      tree_create_realistic_terraform_project [OF assms(1)]
      tree_create_realistic_terraform_project [OF assms(2)] simp_thms)

theorem materialize_deterministic_witness:
  "tree ''/tmp/a'' Map.empty = Map.empty
   \<and> tree ''/tmp/b'' [''/other/x.tf'' \<mapsto> Readable ''x''] = Map.empty
   \<and> tree ''/tmp/a'' (create_error_scenarios ''/tmp/a'' Map.empty)
       = tree ''/tmp/b'' (create_error_scenarios ''/tmp/b'' [''/other/x.tf'' \<mapsto> Readable ''x''])
   \<and> tree ''/tmp/a'' (create_realistic_terraform_project ''/tmp/a'' Map.empty)
       = tree ''/tmp/b''
           (create_realistic_terraform_project ''/tmp/b'' [''/other/x.tf'' \<mapsto> Readable ''x''])"
proof -
  have e1: "tree ''/tmp/a'' Map.empty = Map.empty"
    by (simp add: tree_def)
  have e2: "tree ''/tmp/b'' [''/other/x.tf'' \<mapsto> Readable ''x''] = Map.empty"
    by (rule ext) (simp add: tree_def workspace_file_def)
  from materialize_deterministic [OF e1 e2] e1 e2 show ?thesis
    by (simp only: simp_thms)
qed

subsection \<open>The text scan finds the undefined variable\<close>


















section \<open>Missing and unreadable files\<close>

lemma read_files_skips_missing:
  "read_files fs workspace_path files_to_read all_content =
     read_files fs workspace_path
       (filter (\<lambda>file_path. fs (workspace_file workspace_path file_path) \<noteq> None) files_to_read)
       all_content"
  by (induction files_to_read arbitrary: all_content)
    (auto split: option.splits file_state.splits)

lemma read_files_fails_iff:
  "(\<exists>e. read_files fs workspace_path files_to_read all_content = Inl e) \<longleftrightarrow>
     (\<exists>file_path\<in>set files_to_read. \<exists>e. fs (workspace_file workspace_path file_path) = Some (Unreadable e))"
  by (induction files_to_read arbitrary: all_content)
    (auto split: option.splits file_state.splits)

lemma read_files_content:
  "\<not> (\<exists>file_path\<in>set files_to_read. \<exists>e.
        fs (workspace_file workspace_path file_path) = Some (Unreadable e)) \<Longrightarrow>
   read_files fs workspace_path files_to_read all_content =
     Inr (all_content @ concat (map (file_section fs workspace_path) files_to_read))"
  by (induction files_to_read arbitrary: all_content)
    (auto simp: file_section_def split: option.splits file_state.splits)

lemma file_section_missing:
  "fs (workspace_file workspace_path file_path) = None \<Longrightarrow>
     file_section fs workspace_path file_path = []"
  by (simp add: file_section_def)

lemma sections_skip_missing:
  "concat (map (file_section fs workspace_path) files_to_read) =
     concat (map (file_section fs workspace_path)
       (filter (\<lambda>file_path. fs (workspace_file workspace_path file_path) \<noteq> None) files_to_read))"
  by (induction files_to_read) (auto simp: file_section_missing)

lemma non_lsp_attempt_success:
  "fst (snd (non_lsp_attempt fs workspace_path operation_name files_to_read)) \<longleftrightarrow>
     \<not> (\<exists>file_path\<in>set files_to_read. \<exists>e. fs (workspace_file workspace_path file_path) = Some (Unreadable e))"
proof -
  have "fst (snd (non_lsp_attempt fs workspace_path operation_name files_to_read)) \<longleftrightarrow>
      \<not> (\<exists>e. read_files fs workspace_path files_to_read [] = Inl e)"
    by (cases "read_files fs workspace_path files_to_read []") (simp_all add: non_lsp_attempt_def)
  then show ?thesis
    by (simp only: read_files_fails_iff)
qed

lemma non_lsp_attempt_readable:
  assumes "\<not> (\<exists>file_path\<in>set files_to_read. \<exists>e.
        fs (workspace_file workspace_path file_path) = Some (Unreadable e))"
  shows "non_lsp_attempt fs workspace_path operation_name files_to_read =
     (''Found content in '' @ str_nat (length files_to_read) @ '' files, total ''
        @ str_nat (length (concat (map (file_section fs workspace_path) files_to_read)))
        @ '' characters'',
      True,
      ''Task: '' @ operation_name @ nl @ ''Reading entire files for context'' @ nl
        @ ''Files: '' @ str_list files_to_read @ nl @ nl
        @ concat (map (file_section fs workspace_path) files_to_read))"
  unfolding non_lsp_attempt_def read_files_content [OF assms] by simp

text \<open>
  C6 (as amended). A file that is missing when the naive-mode executor reads it is skipped:
  it adds nothing to the content that goes into the input context, while the record still
  lists it among the files and counts it in the number of files. The record reports
  success exactly when no named file exists and cannot be read, and then its token counts
  are the estimates of that input context and of that payload. The operation always
  returns a record, and every run returns one record per scenario.
\<close>

theorem missing_file_skipped:
  "(\<exists>usage. benchmark_non_lsp_operation fs workspace_path operation_name files_to_read = Inr usage
      \<and> (success usage \<longleftrightarrow>
           \<not> (\<exists>file_path\<in>set files_to_read. \<exists>e.
                 fs (workspace_file workspace_path file_path) = Some (Unreadable e)))
      \<and> (success usage \<longrightarrow>
            input_tokens usage =
              estimate_tokens (Some
                (''Task: '' @ operation_name @ nl @ ''Reading entire files for context'' @ nl
                   @ ''Files: '' @ str_list files_to_read @ nl @ nl
                   @ concat (map (file_section fs workspace_path) files_to_read)))
          \<and> output_tokens usage =
              estimate_tokens (Some
                (''Found content in '' @ str_nat (length files_to_read) @ '' files, total ''
                   @ str_nat (length (concat (map (file_section fs workspace_path) files_to_read)))
                   @ '' characters''))
          \<and> content_length usage =
              length (''Found content in '' @ str_nat (length files_to_read) @ '' files, total ''
                   @ str_nat (length (concat (map (file_section fs workspace_path) files_to_read)))
                   @ '' characters'')))
   \<and> (fs (workspace_file workspace_path missing) = None \<longrightarrow>
        file_section fs workspace_path missing = [])
   \<and> concat (map (file_section fs workspace_path) files_to_read) =
       concat (map (file_section fs workspace_path)
         (filter (\<lambda>file_path. fs (workspace_file workspace_path file_path) \<noteq> None) files_to_read))
   \<and> (\<exists>results. run_scenarios find_symbol_tool fs workspace_path entries = Inr results
      \<and> map scenario results = map name entries)"
proof (intro conjI)
  obtain usage where u:
    "benchmark_non_lsp_operation fs workspace_path operation_name files_to_read = Inr usage"
    using benchmark_non_lsp_operation_total by blast
  note fields = non_lsp_usage_fields [OF u]
  have iff: "success usage \<longleftrightarrow>
      \<not> (\<exists>file_path\<in>set files_to_read. \<exists>e.
            fs (workspace_file workspace_path file_path) = Some (Unreadable e))"
    using fields(7) by (simp only: non_lsp_attempt_success)
  have counts: "input_tokens usage =
              estimate_tokens (Some
                (''Task: '' @ operation_name @ nl @ ''Reading entire files for context'' @ nl
                   @ ''Files: '' @ str_list files_to_read @ nl @ nl
                   @ concat (map (file_section fs workspace_path) files_to_read)))
          \<and> output_tokens usage =
              estimate_tokens (Some
                (''Found content in '' @ str_nat (length files_to_read) @ '' files, total ''
                   @ str_nat (length (concat (map (file_section fs workspace_path) files_to_read)))
                   @ '' characters''))
          \<and> content_length usage =
              length (''Found content in '' @ str_nat (length files_to_read) @ '' files, total ''
                   @ str_nat (length (concat (map (file_section fs workspace_path) files_to_read)))
                   @ '' characters'')"
    if "success usage"
  proof -
    from that iff have "\<not> (\<exists>file_path\<in>set files_to_read. \<exists>e.
            fs (workspace_file workspace_path file_path) = Some (Unreadable e))"
      by simp
    from non_lsp_attempt_readable [OF this, of operation_name] fields(3,4,6) show ?thesis
      by simp
  qed
  from u iff counts
  show "\<exists>usage. benchmark_non_lsp_operation fs workspace_path operation_name files_to_read = Inr usage
      \<and> (success usage \<longleftrightarrow>
           \<not> (\<exists>file_path\<in>set files_to_read. \<exists>e.
                 fs (workspace_file workspace_path file_path) = Some (Unreadable e)))
      \<and> (success usage \<longrightarrow>
            input_tokens usage =
              estimate_tokens (Some
                (''Task: '' @ operation_name @ nl @ ''Reading entire files for context'' @ nl
                   @ ''Files: '' @ str_list files_to_read @ nl @ nl
                   @ concat (map (file_section fs workspace_path) files_to_read)))
          \<and> output_tokens usage =
              estimate_tokens (Some
                (''Found content in '' @ str_nat (length files_to_read) @ '' files, total ''
                   @ str_nat (length (concat (map (file_section fs workspace_path) files_to_read)))
                   @ '' characters''))
          \<and> content_length usage =
              length (''Found content in '' @ str_nat (length files_to_read) @ '' files, total ''
                   @ str_nat (length (concat (map (file_section fs workspace_path) files_to_read)))
                   @ '' characters''))"
    by blast
next
  show "fs (workspace_file workspace_path missing) = None \<longrightarrow>
        file_section fs workspace_path missing = []"
    by (simp add: file_section_missing)
next
  show "concat (map (file_section fs workspace_path) files_to_read) =
       concat (map (file_section fs workspace_path)
         (filter (\<lambda>file_path. fs (workspace_file workspace_path file_path) \<noteq> None) files_to_read))"
    by (rule sections_skip_missing)
next
  obtain results where run: "run_scenarios find_symbol_tool fs workspace_path entries = Inr results"
    using run_scenarios_returns by blast
  with run_scenarios_names [OF run]
  show "\<exists>results. run_scenarios find_symbol_tool fs workspace_path entries = Inr results
      \<and> map scenario results = map name entries"
    by blast
qed

theorem missing_file_skipped_witness:
  "map_sum id (\<lambda>usage. (success usage, input_tokens usage, output_tokens usage, content_length usage))
     (benchmark_non_lsp_operation [''ws/variables.tf'' \<mapsto> Readable ''x''] ''ws'' ''Find x''
       [''main.tf'', ''variables.tf''])
     = Inr (True, 29, 11, 45)
   \<and> [''ws/variables.tf'' \<mapsto> Readable ''x''] (workspace_file ''ws'' ''main.tf'') = None
   \<and> file_section [''ws/variables.tf'' \<mapsto> Readable ''x''] ''ws'' ''main.tf'' = []
   \<and> concat (map (file_section [''ws/variables.tf'' \<mapsto> Readable ''x''] ''ws'')
        [''main.tf'', ''variables.tf'']) = nl @ ''# File: variables.tf'' @ nl @ ''x'' @ nl"
proof -
  let ?fs = "[''ws/variables.tf'' \<mapsto> Readable ''x'']"
  let ?files = "[''main.tf'', ''variables.tf'']"
  note inst = missing_file_skipped [of ?fs "''ws''" "''Find x''" ?files "''main.tf''"
      "\<lambda>_. Returned []" "[]"]
  have missing: "?fs (workspace_file ''ws'' ''main.tf'') = None"
    by (simp add: workspace_file_def)
  have readable: "\<not> (\<exists>file_path\<in>set ?files. \<exists>e.
      ?fs (workspace_file ''ws'' file_path) = Some (Unreadable e))"
    by (simp add: workspace_file_def)
  have sections: "concat (map (file_section ?fs ''ws'') ?files)
      = nl @ ''# File: variables.tf'' @ nl @ ''x'' @ nl"
    by (simp add: file_section_def workspace_file_def)
  have strl: "str_list ?files = [CHR ''['', CHR 0x27] @ ''main.tf'' @ [CHR 0x27] @ '', ''
      @ [CHR 0x27] @ ''variables.tf'' @ [CHR 0x27, CHR '']'']"
    by (simp add: str_list_def py_repr_def repr_char_def is_printable_def Let_def)
  have payload: "''Found content in '' @ str_nat (length ?files) @ '' files, total ''
      @ str_nat (length (concat (map (file_section ?fs ''ws'') ?files))) @ '' characters''
      = ''Found content in 2 files, total 24 characters''"
    unfolding sections by (simp add: digit_char_def)
  have e_in: "estimate_tokens (Some
      (''Task: '' @ ''Find x'' @ nl @ ''Reading entire files for context'' @ nl
         @ ''Files: '' @ str_list ?files @ nl @ nl
         @ concat (map (file_section ?fs ''ws'') ?files))) = 29"
    unfolding sections strl
    by (simp add: estimate_tokens_closed strip_def lstrip_def rstrip_def is_space_def
        special_chars_class_def)
  have e_out: "estimate_tokens (Some ''Found content in 2 files, total 24 characters'') = 11"
    by (simp add: estimate_tokens_closed strip_def lstrip_def rstrip_def is_space_def
        special_chars_class_def)
  from inst [THEN conjunct1] obtain usage where
    u: "benchmark_non_lsp_operation ?fs ''ws'' ''Find x'' ?files = Inr usage"
    and iff: "success usage \<longleftrightarrow> \<not> (\<exists>file_path\<in>set ?files. \<exists>e.
        ?fs (workspace_file ''ws'' file_path) = Some (Unreadable e))"
    and counts: "success usage \<longrightarrow>
            input_tokens usage =
              estimate_tokens (Some
                (''Task: '' @ ''Find x'' @ nl @ ''Reading entire files for context'' @ nl
                   @ ''Files: '' @ str_list ?files @ nl @ nl
                   @ concat (map (file_section ?fs ''ws'') ?files)))
          \<and> output_tokens usage =
              estimate_tokens (Some
                (''Found content in '' @ str_nat (length ?files) @ '' files, total ''
                   @ str_nat (length (concat (map (file_section ?fs ''ws'') ?files)))
                   @ '' characters''))
          \<and> content_length usage =
              length (''Found content in '' @ str_nat (length ?files) @ '' files, total ''
                   @ str_nat (length (concat (map (file_section ?fs ''ws'') ?files)))
                   @ '' characters'')"
    by (elim exE conjE)
  from iff readable have ok: "success usage"
    by (simp only: simp_thms)
  with counts have "input_tokens usage = 29 \<and> output_tokens usage = 11 \<and> content_length usage = 45"
    unfolding payload e_in e_out by simp
  with ok have "(success usage, input_tokens usage, output_tokens usage, content_length usage)
      = (True, 29, 11, 45)"
    by simp
  with u missing inst [THEN conjunct2, THEN conjunct1] sections show ?thesis
    by simp
qed

text \<open>
  C6 as stated fails: in an empty file system the one file of the scenario is missing, and
  the operation still reports success.
\<close>

theorem missing_file_success_counterexample:
  "map_sum id success
     (benchmark_non_lsp_operation Map.empty ''ws'' ''Find all VPC resources'' [''main.tf''])
   = Inr True"
  by (simp add: benchmark_non_lsp_operation_returns non_lsp_attempt_def)

end
